theory Spec2Isabelle
  imports Main "HOL-Library.Signed_Division"
begin

section \<open>Data model\<close>

text \<open>
  The C sources are \<^verbatim>\<open>src/mpi/coll/allgather/allgather.c\<close>,
  \<^verbatim>\<open>src/mpi/coll/iallgather/iallgather_ring.c\<close> and
  \<^verbatim>\<open>src/mpi/coll/nhb_allgather/nhb_allgather_nb.c\<close>.

  C values of type \<^verbatim>\<open>int\<close> and \<^verbatim>\<open>MPI_Aint\<close> are modelled as HOL integers, with
  the two's-complement wrap-around written out where a value can leave the range of its
  type and a result depends on it: the store of a datatype size into \<^verbatim>\<open>int type_size\<close>
  and the product \<^verbatim>\<open>tot_bytes\<close> in \<^verbatim>\<open>MPIR_Allgather_intra\<close>, and the products of a
  block index and \<^verbatim>\<open>recvcount\<close>, which the ring builder computes on two \<^verbatim>\<open>int\<close>
  operands before it widens them. The sums of ranks and the group size in the ring builder
  are kept exact; they stay in the range of an \<^verbatim>\<open>int\<close> for every group of at most
  \<open>2 ^ 30\<close> processes. Addresses are integers, so that \<^verbatim>\<open>(char *) recvbuf + k\<close> is
  \<open>recvbuf + k\<close>.
\<close>

text \<open>
  \<open>C_int_of k\<close> is the value a 32-bit \<^verbatim>\<open>int\<close> holds after a computation or a
  conversion whose exact result is \<open>k\<close>. \<^verbatim>\<open>MPI_Aint\<close> is declared outside the sources;
  it is taken as a signed 64-bit integer, and \<open>MPI_Aint_of k\<close> is the value it holds
  after a computation whose exact result is \<open>k\<close>.
\<close>

definition C_int_of :: "int \<Rightarrow> int" where
  "C_int_of k = signed_take_bit 31 k"

definition MPI_Aint_of :: "int \<Rightarrow> int" where
  "MPI_Aint_of k = signed_take_bit 63 k"

definition MPI_SUCCESS :: int where
  "MPI_SUCCESS = 0"

text \<open>
  Modelled from the spec: the enumeration \<^verbatim>\<open>MPIR_Errflag_t\<close> is declared in
  \<^verbatim>\<open>mpiimpl.h\<close>, which is not among the sources. The spec calls it the group-wide
  failure flag; the code only compares it with \<^verbatim>\<open>MPIR_ERR_NONE\<close> and passes it
  on as an error class.
\<close>

datatype MPIR_Errflag_t = MPIR_ERR_NONE | MPIR_ERR_PROC_FAILED | MPIR_ERR_OTHER

text \<open>
  Modelled from the spec: a datatype handle stands for an element type from which a size
  (bytes per element) and an extent (stride between elements) are derived; the macros
  \<^verbatim>\<open>MPIR_Datatype_get_size_macro\<close> and \<^verbatim>\<open>MPIR_Datatype_get_extent_macro\<close> that
  derive them are not among the sources and read the two fields here.
\<close>

record MPI_Datatype =
  type_size :: int
  type_extent :: int

definition MPIR_Datatype_get_size_macro :: "MPI_Datatype \<Rightarrow> int" where
  "MPIR_Datatype_get_size_macro t = type_size t"

definition MPIR_Datatype_get_extent_macro :: "MPI_Datatype \<Rightarrow> int" where
  "MPIR_Datatype_get_extent_macro t = type_extent t"

datatype MPIR_Comm_kind_t = MPIR_COMM_KIND__INTRACOMM | MPIR_COMM_KIND__INTERCOMM

record MPIR_Comm =
  comm_kind :: MPIR_Comm_kind_t
  rank :: int
  local_size :: int

text \<open>The send buffer is either the in-place sentinel or an address.\<close>

datatype sendbuf_t = MPI_IN_PLACE | Address int

text \<open>The argument list shared by every all-gather routine of the three files.\<close>

record allgather_args =
  sendbuf :: sendbuf_t
  sendcount :: int
  sendtype :: MPI_Datatype
  recvbuf :: int
  recvcount :: int
  recvtype :: MPI_Datatype
  comm_ptr :: MPIR_Comm

subsection \<open>Configuration\<close>

datatype MPIR_Allgather_alg_intra_t =
    MPIR_ALLGATHER_ALG_INTRA_AUTO
  | MPIR_ALLGATHER_ALG_INTRA_BRUCKS
  | MPIR_ALLGATHER_ALG_INTRA_RECURSIVE_DOUBLING
  | MPIR_ALLGATHER_ALG_INTRA_RING

datatype MPIR_Allgather_alg_inter_t =
    MPIR_ALLGATHER_ALG_INTER_AUTO
  | MPIR_ALLGATHER_ALG_INTER_GENERIC

text \<open>
  The control variables of the \<^verbatim>\<open>MPI_T_CVAR_INFO_BLOCK\<close> of \<^verbatim>\<open>allgather.c\<close>, the two
  algorithm choices derived from the string variables, and the global
  \<^verbatim>\<open>MPIR_CVAR_DEVICE_COLLECTIVES\<close> that \<^verbatim>\<open>MPI_Allgather\<close> reads as well.
\<close>

record cvars =
  MPIR_CVAR_ALLGATHER_SHORT_MSG_SIZE :: int
  MPIR_CVAR_ALLGATHER_LONG_MSG_SIZE :: int
  MPIR_Allgather_alg_intra_choice :: MPIR_Allgather_alg_intra_t
  MPIR_Allgather_alg_inter_choice :: MPIR_Allgather_alg_inter_t
  MPIR_CVAR_ALLGATHER_DEVICE_COLLECTIVE :: bool
  MPIR_CVAR_DEVICE_COLLECTIVES :: bool

text \<open>The defaults documented in the block; the global device switch is taken as enabled.\<close>

definition default_cvars :: cvars where
  "default_cvars =
     \<lparr> MPIR_CVAR_ALLGATHER_SHORT_MSG_SIZE = 81920,
       MPIR_CVAR_ALLGATHER_LONG_MSG_SIZE = 524288,
       MPIR_Allgather_alg_intra_choice = MPIR_ALLGATHER_ALG_INTRA_AUTO,
       MPIR_Allgather_alg_inter_choice = MPIR_ALLGATHER_ALG_INTER_AUTO,
       MPIR_CVAR_ALLGATHER_DEVICE_COLLECTIVE = True,
       MPIR_CVAR_DEVICE_COLLECTIVES = True \<rparr>"

subsection \<open>Error macros\<close>

text \<open>The ways in which a routine of the model ends without returning.\<close>

datatype abort = Not_initialized | Assertion_failed | Division_by_zero

text \<open>
  The error macros and routines come from headers that are not among the sources, and
  their expansion depends on the build; they are parameters of the model.
  \<^item> \<open>MPIR_ERR_POP\<close>: the code left in \<^verbatim>\<open>mpi_errno\<close> by \<^verbatim>\<open>MPIR_ERR_POP(mpi_errno)\<close>
    before it jumps to \<^verbatim>\<open>fn_fail\<close>;
  \<^item> \<open>MPIR_ERR_SET\<close>: the code left by \<^verbatim>\<open>MPIR_ERR_SET(mpi_errno, class, msg)\<close>;
  \<^item> \<open>MPIR_Err_create_code\<close> and \<open>MPIR_Err_return_comm\<close>: the codes returned by the
    two calls of the \<^verbatim>\<open>fn_fail\<close> block of \<^verbatim>\<open>MPI_Allgather\<close> (the second one runs the
    communicator's error handler, which is outside the sources);
  \<^item> \<open>INITIALIZED\<close>: whether the test of \<^verbatim>\<open>MPIR_ERRTEST_INITIALIZED_ORDIE\<close> passes;
    when it does not, the call does not return;
  \<^item> \<open>HAVE_ERROR_CHECKING\<close>: whether the blocks under that name are compiled;
  \<^item> \<open>ERRTEST\<close>: the code with which the argument checks of \<^verbatim>\<open>MPI_Allgather\<close> jump
    to \<^verbatim>\<open>fn_fail\<close>, or \<open>MPI_SUCCESS\<close> when every check passes;
  \<^item> \<open>Aint_fits_in_pointer\<close>: the condition asserted by
    \<^verbatim>\<open>MPIR_Ensure_Aint_fits_in_pointer\<close>.
\<close>

record macros =
  MPIR_ERR_POP :: "int \<Rightarrow> int"
  MPIR_ERR_SET :: "int \<Rightarrow> MPIR_Errflag_t \<Rightarrow> string \<Rightarrow> int"
  MPIR_Err_create_code :: "int \<Rightarrow> string \<Rightarrow> int"
  MPIR_Err_return_comm :: "MPIR_Comm \<Rightarrow> int \<Rightarrow> int"
  INITIALIZED :: bool
  HAVE_ERROR_CHECKING :: bool
  ERRTEST :: "allgather_args \<Rightarrow> int"
  Aint_fits_in_pointer :: "int \<Rightarrow> bool"

subsection \<open>External routines and the call log\<close>

text \<open>
  The routines that move data are defined in other files. They are parameters: each takes
  the argument list, the failure flag and the memory \<open>'m\<close> it may read and write, and
  returns its error code with the new flag and memory. The non-blocking neighbor start
  also returns a request \<open>'r\<close>, on which the wait operates.
\<close>

type_synonym 'm coll_fn =
  "allgather_args \<Rightarrow> MPIR_Errflag_t \<Rightarrow> 'm \<Rightarrow> int \<times> MPIR_Errflag_t \<times> 'm"

record ('m, 'r) externals =
  MPIR_Allgather_recursive_doubling :: "'m coll_fn"
  MPIR_Allgather_brucks :: "'m coll_fn"
  MPIR_Allgather_ring :: "'m coll_fn"
  MPIR_Allgather_generic_inter :: "'m coll_fn"
  MPID_Allgather :: "'m coll_fn"
  MPID_Ineighbor_allgather :: "allgather_args \<Rightarrow> 'm \<Rightarrow> int \<times> 'r \<times> 'm"
  MPIR_Wait_impl :: "'r \<Rightarrow> 'm \<Rightarrow> int \<times> 'm"

datatype callee =
    Call_Allgather_recursive_doubling
  | Call_Allgather_brucks
  | Call_Allgather_ring
  | Call_Allgather_generic_inter
  | Call_MPID_Allgather
  | Call_MPID_Ineighbor_allgather
  | Call_Wait_impl

text \<open>
  The state threaded through the model: the memory, and the log of the external calls made
  so far, each with the error code it returned. Only \<open>call_coll\<close>, \<open>call_start\<close> and
  \<open>call_wait\<close> extend the log, one entry per call site of the source.
\<close>

record 'm world =
  mem :: 'm
  calls :: "(callee \<times> int) list"

definition call_coll ::
  "callee \<Rightarrow> 'm coll_fn \<Rightarrow> allgather_args \<Rightarrow> MPIR_Errflag_t \<Rightarrow> 'm world
     \<Rightarrow> int \<times> MPIR_Errflag_t \<times> 'm world" where
  "call_coll c f a errflag w =
     (case f a errflag (mem w) of
        (e, errflag', m') \<Rightarrow> (e, errflag', \<lparr> mem = m', calls = calls w @ [(c, e)] \<rparr>))"

definition call_start ::
  "(allgather_args \<Rightarrow> 'm \<Rightarrow> int \<times> 'r \<times> 'm) \<Rightarrow> allgather_args \<Rightarrow> 'm world
     \<Rightarrow> int \<times> 'r \<times> 'm world" where
  "call_start f a w =
     (case f a (mem w) of
        (e, req, m') \<Rightarrow>
          (e, req, \<lparr> mem = m', calls = calls w @ [(Call_MPID_Ineighbor_allgather, e)] \<rparr>))"

definition call_wait ::
  "('r \<Rightarrow> 'm \<Rightarrow> int \<times> 'm) \<Rightarrow> 'r \<Rightarrow> 'm world \<Rightarrow> int \<times> 'm world" where
  "call_wait f req w =
     (case f req (mem w) of
        (e, m') \<Rightarrow> (e, \<lparr> mem = m', calls = calls w @ [(Call_Wait_impl, e)] \<rparr>))"

section \<open>The blocking all-gather of allgather.c\<close>

text \<open>
  \<^verbatim>\<open>MPIR_Allgather_intra\<close>, lines 152 to 200. \<^verbatim>\<open>mpi_errno_ret\<close> is initialised to
  \<^verbatim>\<open>MPI_SUCCESS\<close> and never assigned, so the first branch at \<^verbatim>\<open>fn_exit\<close> is kept as a
  test of that constant. Line 173 stores the size of the receive type in the variable
  \<^verbatim>\<open>int type_size\<close> of line 166, which narrows it to an \<^verbatim>\<open>int\<close>; line 175 widens
  \<^verbatim>\<open>recvcount\<close> before it multiplies.
\<close>

definition MPIR_Allgather_intra ::
  "macros \<Rightarrow> cvars \<Rightarrow> ('m, 'r) externals \<Rightarrow> allgather_args \<Rightarrow> MPIR_Errflag_t \<Rightarrow> 'm world
     \<Rightarrow> int \<times> MPIR_Errflag_t \<times> 'm world" where
  "MPIR_Allgather_intra M C X a errflag w =
     (if (sendcount a = 0 \<and> sendbuf a \<noteq> MPI_IN_PLACE) \<or> recvcount a = 0
      then (MPI_SUCCESS, errflag, w)
      else
        let mpi_errno_ret = MPI_SUCCESS;
            comm_size = local_size (comm_ptr a);
            type_size = C_int_of (MPIR_Datatype_get_size_macro (recvtype a));
            tot_bytes = MPI_Aint_of (recvcount a * comm_size * type_size)
        in case
             (if tot_bytes < MPIR_CVAR_ALLGATHER_LONG_MSG_SIZE C
                 \<and> and comm_size (comm_size - 1) = 0
              then call_coll Call_Allgather_recursive_doubling
                     (MPIR_Allgather_recursive_doubling X) a errflag w
              else if tot_bytes < MPIR_CVAR_ALLGATHER_SHORT_MSG_SIZE C
              then call_coll Call_Allgather_brucks (MPIR_Allgather_brucks X) a errflag w
              else call_coll Call_Allgather_ring (MPIR_Allgather_ring X) a errflag w)
           of (e, errflag', w') \<Rightarrow>
             let mpi_errno = (if e \<noteq> 0 then MPIR_ERR_POP M e else e)
             in (if mpi_errno_ret \<noteq> 0 then mpi_errno_ret
                 else if errflag' \<noteq> MPIR_ERR_NONE
                 then MPIR_ERR_SET M mpi_errno errflag' ''**coll_fail''
                 else mpi_errno,
                 errflag', w'))"

text \<open>\<^verbatim>\<open>MPIR_Allgather_inter\<close>, lines 210 to 226.\<close>

definition MPIR_Allgather_inter ::
  "('m, 'r) externals \<Rightarrow> allgather_args \<Rightarrow> MPIR_Errflag_t \<Rightarrow> 'm world
     \<Rightarrow> int \<times> MPIR_Errflag_t \<times> 'm world" where
  "MPIR_Allgather_inter X a errflag w =
     call_coll Call_Allgather_generic_inter (MPIR_Allgather_generic_inter X) a errflag w"

text \<open>
  \<^verbatim>\<open>MPIR_Allgather\<close>, lines 236 to 279. The \<^verbatim>\<open>default\<close> labels share the branch of
  the \<^verbatim>\<open>AUTO\<close> cases.
\<close>

definition MPIR_Allgather ::
  "macros \<Rightarrow> cvars \<Rightarrow> ('m, 'r) externals \<Rightarrow> allgather_args \<Rightarrow> MPIR_Errflag_t \<Rightarrow> 'm world
     \<Rightarrow> int \<times> MPIR_Errflag_t \<times> 'm world" where
  "MPIR_Allgather M C X a errflag w =
     (case
        (if comm_kind (comm_ptr a) = MPIR_COMM_KIND__INTRACOMM
         then (case MPIR_Allgather_alg_intra_choice C of
                 MPIR_ALLGATHER_ALG_INTRA_BRUCKS \<Rightarrow>
                   call_coll Call_Allgather_brucks (MPIR_Allgather_brucks X) a errflag w
               | MPIR_ALLGATHER_ALG_INTRA_RECURSIVE_DOUBLING \<Rightarrow>
                   call_coll Call_Allgather_recursive_doubling
                     (MPIR_Allgather_recursive_doubling X) a errflag w
               | MPIR_ALLGATHER_ALG_INTRA_RING \<Rightarrow>
                   call_coll Call_Allgather_ring (MPIR_Allgather_ring X) a errflag w
               | MPIR_ALLGATHER_ALG_INTRA_AUTO \<Rightarrow>
                   MPIR_Allgather_intra M C X a errflag w)
         else (case MPIR_Allgather_alg_inter_choice C of
                 MPIR_ALLGATHER_ALG_INTER_GENERIC \<Rightarrow>
                   call_coll Call_Allgather_generic_inter
                     (MPIR_Allgather_generic_inter X) a errflag w
               | MPIR_ALLGATHER_ALG_INTER_AUTO \<Rightarrow>
                   MPIR_Allgather_inter X a errflag w))
      of (e, errflag', w') \<Rightarrow>
        ((if e \<noteq> 0 then MPIR_ERR_POP M e else e), errflag', w'))"

text \<open>
  \<^verbatim>\<open>MPI_Allgather\<close>, lines 331 to 445. The argument checks run only in a build with
  \<^verbatim>\<open>HAVE_ERROR_CHECKING\<close>; a failed check jumps to \<^verbatim>\<open>fn_fail\<close> before the body.
  \<^verbatim>\<open>errflag\<close> is a local variable, initialised to \<^verbatim>\<open>MPIR_ERR_NONE\<close> and dropped at
  the return. The critical section and the tracing macros have no effect on the result and
  are left out.
\<close>

definition MPI_Allgather_fn_fail :: "macros \<Rightarrow> allgather_args \<Rightarrow> int \<Rightarrow> int" where
  "MPI_Allgather_fn_fail M a mpi_errno =
     MPIR_Err_return_comm M (comm_ptr a)
       (if HAVE_ERROR_CHECKING M then MPIR_Err_create_code M mpi_errno ''**mpi_allgather''
        else mpi_errno)"

definition MPI_Allgather ::
  "macros \<Rightarrow> cvars \<Rightarrow> ('m, 'r) externals \<Rightarrow> allgather_args \<Rightarrow> 'm world
     \<Rightarrow> abort + int \<times> 'm world" where
  "MPI_Allgather M C X a w =
     (if \<not> INITIALIZED M then Inl Not_initialized
      else
        let errflag = MPIR_ERR_NONE;
            checked = (if HAVE_ERROR_CHECKING M then ERRTEST M a else MPI_SUCCESS)
        in if checked \<noteq> MPI_SUCCESS then Inr (MPI_Allgather_fn_fail M a checked, w)
           else
             case
               (if MPIR_CVAR_ALLGATHER_DEVICE_COLLECTIVE C \<and> MPIR_CVAR_DEVICE_COLLECTIVES C
                then call_coll Call_MPID_Allgather (MPID_Allgather X) a errflag w
                else MPIR_Allgather M C X a errflag w)
             of (mpi_errno, errflag', w') \<Rightarrow>
               Inr (if mpi_errno \<noteq> 0 then MPI_Allgather_fn_fail M a mpi_errno
                    else mpi_errno, w'))"

section \<open>The ring schedule builder of iallgather-ring.c\<close>

text \<open>
  A schedule is the ordered list of the steps recorded so far. A copy carries the source
  address, count and type and the destination address, count and type; a send or a receive
  carries the buffer address, count, type and the peer's rank.
\<close>

datatype sched_entry =
    Sched_copy int int MPI_Datatype int int MPI_Datatype
  | Sched_send int int MPI_Datatype int
  | Sched_recv int int MPI_Datatype int
  | Sched_barrier

type_synonym MPIR_Sched_t = "sched_entry list"

text \<open>
  Modelled from the spec: the step emitters \<^verbatim>\<open>MPIR_Sched_copy\<close>, \<^verbatim>\<open>MPIR_Sched_send\<close>,
  \<^verbatim>\<open>MPIR_Sched_recv\<close> and \<^verbatim>\<open>MPIR_Sched_barrier\<close> belong to the schedule engine, which is
  not among the sources. By the spec an emitter appends its step to the ordered schedule
  and performs no I/O. The builder tests the error code of every emitter, so the code an
  emitter returns for a step and a schedule is a parameter \<open>F\<close>: a nonzero code refuses
  the step.
\<close>

type_synonym sched_refusal = "sched_entry \<Rightarrow> MPIR_Sched_t \<Rightarrow> int"

definition sched_add ::
  "sched_refusal \<Rightarrow> sched_entry \<Rightarrow> MPIR_Sched_t \<Rightarrow> int \<times> MPIR_Sched_t" where
  "sched_add F e s = (if F e s \<noteq> 0 then (F e s, s) else (MPI_SUCCESS, s @ [e]))"

definition MPIR_Sched_copy ::
  "sched_refusal \<Rightarrow> int \<Rightarrow> int \<Rightarrow> MPI_Datatype \<Rightarrow> int \<Rightarrow> int \<Rightarrow> MPI_Datatype \<Rightarrow> MPIR_Sched_t
     \<Rightarrow> int \<times> MPIR_Sched_t" where
  "MPIR_Sched_copy F inbuf incount intype outbuf outcount outtype s =
     sched_add F (Sched_copy inbuf incount intype outbuf outcount outtype) s"

definition MPIR_Sched_send ::
  "sched_refusal \<Rightarrow> int \<Rightarrow> int \<Rightarrow> MPI_Datatype \<Rightarrow> int \<Rightarrow> MPIR_Sched_t
     \<Rightarrow> int \<times> MPIR_Sched_t" where
  "MPIR_Sched_send F buf count datatype dest s =
     sched_add F (Sched_send buf count datatype dest) s"

definition MPIR_Sched_recv ::
  "sched_refusal \<Rightarrow> int \<Rightarrow> int \<Rightarrow> MPI_Datatype \<Rightarrow> int \<Rightarrow> MPIR_Sched_t
     \<Rightarrow> int \<times> MPIR_Sched_t" where
  "MPIR_Sched_recv F buf count datatype src s =
     sched_add F (Sched_recv buf count datatype src) s"

definition MPIR_Sched_barrier :: "sched_refusal \<Rightarrow> MPIR_Sched_t \<Rightarrow> int \<times> MPIR_Sched_t" where
  "MPIR_Sched_barrier F s = sched_add F Sched_barrier s"

text \<open>
  Modelled from the spec: the macro \<^verbatim>\<open>MPIR_SCHED_BARRIER(s)\<close> is not among the sources
  either. By the spec a barrier is one of the steps an emitter appends; the macro is taken
  as the call of \<^verbatim>\<open>MPIR_Sched_barrier\<close> followed by the same test of \<^verbatim>\<open>mpi_errno\<close>
  as after the other emitters. \<open>Inl\<close> is the jump to \<^verbatim>\<open>fn_fail\<close>, taken on the code
  the emitter returned, with the code that \<^verbatim>\<open>MPIR_ERR_POP\<close> leaves; \<open>Inr\<close> goes on.
\<close>

definition MPIR_SCHED_BARRIER ::
  "macros \<Rightarrow> sched_refusal \<Rightarrow> MPIR_Sched_t \<Rightarrow> int \<times> MPIR_Sched_t + MPIR_Sched_t" where
  "MPIR_SCHED_BARRIER M F s =
     (case MPIR_Sched_barrier F s of
        (e, s') \<Rightarrow> if e \<noteq> 0 then Inl (MPIR_ERR_POP M e, s') else Inr s')"

text \<open>
  The loop of lines 47 to 59, from the values of \<^verbatim>\<open>i\<close>, \<^verbatim>\<open>j\<close> and \<^verbatim>\<open>jnext\<close> at
  the loop test. C's \<^verbatim>\<open>%\<close> truncates towards zero, which is \<open>smod\<close>. In the buffer
  arguments of lines 48 and 52 the product of \<^verbatim>\<open>j\<close> (or \<^verbatim>\<open>jnext\<close>) and
  \<^verbatim>\<open>recvcount\<close> has two \<^verbatim>\<open>int\<close> operands and is an \<^verbatim>\<open>int\<close>; the product with
  \<^verbatim>\<open>recvtype_extent\<close> is an \<^verbatim>\<open>MPI_Aint\<close>.
\<close>

function ring_loop ::
  "macros \<Rightarrow> sched_refusal \<Rightarrow> allgather_args \<Rightarrow> int \<Rightarrow> int \<Rightarrow> int \<Rightarrow> int \<Rightarrow> int
     \<Rightarrow> MPIR_Sched_t \<Rightarrow> int \<times> MPIR_Sched_t" where
  "ring_loop M F a left right i j jnext s =
     (let comm_size = local_size (comm_ptr a);
          recvtype_extent = MPIR_Datatype_get_extent_macro (recvtype a)
      in if i < comm_size then
           (case MPIR_Sched_send F
                   (recvbuf a + MPI_Aint_of (C_int_of (j * recvcount a) * recvtype_extent))
                   (recvcount a) (recvtype a) right s of
              (e1, s1) \<Rightarrow>
                if e1 \<noteq> 0 then (MPIR_ERR_POP M e1, s1)
                else
                  (case MPIR_Sched_recv F
                          (recvbuf a
                             + MPI_Aint_of (C_int_of (jnext * recvcount a) * recvtype_extent))
                          (recvcount a) (recvtype a) left s1 of
                     (e2, s2) \<Rightarrow>
                       if e2 \<noteq> 0 then (MPIR_ERR_POP M e2, s2)
                       else
                         (case MPIR_SCHED_BARRIER M F s2 of
                            Inl failed \<Rightarrow> failed
                          | Inr s3 \<Rightarrow>
                              ring_loop M F a left right (i + 1) jnext
                                ((comm_size + jnext - 1) smod comm_size) s3)))
         else (MPI_SUCCESS, s))"
  by pat_completeness auto
termination
  by (relation
      "measure (\<lambda>(M, F, a, left, right, i, j, jnext, s). nat (local_size (comm_ptr a) - i))")
    auto

declare ring_loop.simps [simp del]

text \<open>
  Lines 40 to 59 of \<^verbatim>\<open>MPIR_Iallgather_ring_sched\<close>: the neighbors and the loop. The
  function does not return when \<^verbatim>\<open>comm_size\<close> is zero at the remainder of line 42.
\<close>

definition ring_exchange ::
  "macros \<Rightarrow> sched_refusal \<Rightarrow> allgather_args \<Rightarrow> MPIR_Sched_t
     \<Rightarrow> abort + int \<times> MPIR_Sched_t" where
  "ring_exchange M F a s =
     (let comm_size = local_size (comm_ptr a);
          rank = rank (comm_ptr a)
      in if comm_size = 0 then Inl Division_by_zero
         else
           let left = (comm_size + rank - 1) smod comm_size;
               right = (rank + 1) smod comm_size
           in Inr (ring_loop M F a left right 1 rank left s))"

text \<open>
  \<^verbatim>\<open>MPIR_Iallgather_ring_sched\<close>, lines 13 to 65. The function does not return when the
  assertion of line 28 fails. In the arguments of lines 29 and 34 the products of
  \<^verbatim>\<open>comm_size\<close> and of \<^verbatim>\<open>rank\<close> with \<^verbatim>\<open>recvcount\<close> are \<^verbatim>\<open>int\<close> products, and the
  sum of line 28 is an \<^verbatim>\<open>MPI_Aint\<close>. A nonzero code from the copy or from its barrier
  jumps to \<^verbatim>\<open>fn_fail\<close> and the function returns.
\<close>

definition MPIR_Iallgather_ring_sched ::
  "macros \<Rightarrow> sched_refusal \<Rightarrow> allgather_args \<Rightarrow> MPIR_Sched_t
     \<Rightarrow> abort + int \<times> MPIR_Sched_t" where
  "MPIR_Iallgather_ring_sched M F a s =
     (let comm_size = local_size (comm_ptr a);
          rank = rank (comm_ptr a);
          recvtype_extent = MPIR_Datatype_get_extent_macro (recvtype a)
      in if \<not> Aint_fits_in_pointer M
                (MPI_Aint_of (recvbuf a
                   + MPI_Aint_of (C_int_of (comm_size * recvcount a) * recvtype_extent)))
         then Inl Assertion_failed
         else
           (case sendbuf a of
              MPI_IN_PLACE \<Rightarrow> ring_exchange M F a s
            | Address p \<Rightarrow>
                (case MPIR_Sched_copy F p (sendcount a) (sendtype a)
                        (recvbuf a
                           + MPI_Aint_of (C_int_of (rank * recvcount a) * recvtype_extent))
                        (recvcount a) (recvtype a) s of
                   (e, s1) \<Rightarrow>
                     if e \<noteq> 0 then Inr (MPIR_ERR_POP M e, s1)
                     else
                       (case MPIR_SCHED_BARRIER M F s1 of
                          Inl failed \<Rightarrow> Inr failed
                        | Inr s2 \<Rightarrow> ring_exchange M F a s2))))"

section \<open>The neighbor all-gather of nhb-allgather-nb.c\<close>

text \<open>\<^verbatim>\<open>MPIR_Neighbor_allgather_nb\<close>, lines 13 to 28.\<close>

definition MPIR_Neighbor_allgather_nb ::
  "macros \<Rightarrow> ('m, 'r) externals \<Rightarrow> allgather_args \<Rightarrow> 'm world \<Rightarrow> int \<times> 'm world" where
  "MPIR_Neighbor_allgather_nb M X a w =
     (case call_start (MPID_Ineighbor_allgather X) a w of
        (e, req, w1) \<Rightarrow>
          if e \<noteq> 0 then (MPIR_ERR_POP M e, w1)
          else
            (case call_wait (MPIR_Wait_impl X) req w1 of
               (e', w2) \<Rightarrow> if e' \<noteq> 0 then (MPIR_ERR_POP M e', w2) else (e', w2)))"

section \<open>Notions used to state the properties\<close>

text \<open>The exact product of line 175 of \<^verbatim>\<open>allgather.c\<close>, before it is stored.\<close>

definition tot_bytes_exact :: "allgather_args \<Rightarrow> int" where
  "tot_bytes_exact a = recvcount a * local_size (comm_ptr a) * type_size (recvtype a)"

text \<open>The condition of line 168 under which \<^verbatim>\<open>MPIR_Allgather_intra\<close> returns at once.\<close>

definition zero_size_call :: "allgather_args \<Rightarrow> bool" where
  "zero_size_call a =
     ((sendcount a = 0 \<and> sendbuf a \<noteq> MPI_IN_PLACE) \<or> recvcount a = 0)"

text \<open>
  Modelled from the spec: the algorithm routines \<^verbatim>\<open>MPIR_Allgather_recursive_doubling\<close>,
  \<^verbatim>\<open>MPIR_Allgather_brucks\<close>, \<^verbatim>\<open>MPIR_Allgather_ring\<close> and
  \<^verbatim>\<open>MPIR_Allgather_generic_inter\<close> are not among the sources. By the spec a zero-size
  call (send count zero and not in place, or receive count zero) returns immediately with
  no data movement and no error. \<open>zero_size_noop f\<close> is a routine that does so, and that
  is the parameter \<open>f\<close> on every other call; \<open>spec_algorithms X\<close> are the external
  routines \<open>X\<close> with the four algorithm routines of that kind.
\<close>

definition zero_size_noop :: "'m coll_fn \<Rightarrow> 'm coll_fn" where
  "zero_size_noop f a errflag m =
     (if zero_size_call a then (MPI_SUCCESS, errflag, m) else f a errflag m)"

definition spec_algorithms :: "('m, 'r) externals \<Rightarrow> ('m, 'r) externals" where
  "spec_algorithms X =
     X \<lparr> MPIR_Allgather_recursive_doubling :=
           zero_size_noop (MPIR_Allgather_recursive_doubling X),
         MPIR_Allgather_brucks := zero_size_noop (MPIR_Allgather_brucks X),
         MPIR_Allgather_ring := zero_size_noop (MPIR_Allgather_ring X),
         MPIR_Allgather_generic_inter := zero_size_noop (MPIR_Allgather_generic_inter X) \<rparr>"

text \<open>The external routines invoked between two states of the log, in order.\<close>

definition invoked :: "'m world \<Rightarrow> 'm world \<Rightarrow> callee list" where
  "invoked w w' = map fst (drop (length (calls w)) (calls w'))"

text \<open>
  The address the builder computes for the block of index \<open>b\<close> at lines 34, 48 and 52,
  with the \<^verbatim>\<open>int\<close> product and the \<^verbatim>\<open>MPI_Aint\<close> product as the code evaluates them;
  and the address at which block \<open>b\<close> of the receive buffer starts. The two agree as long
  as the products stay in range (lemma \<open>block_addr_exact\<close>).
\<close>

definition block_addr :: "allgather_args \<Rightarrow> int \<Rightarrow> int" where
  "block_addr a b =
     recvbuf a + MPI_Aint_of (C_int_of (b * recvcount a) * type_extent (recvtype a))"

definition block_start :: "allgather_args \<Rightarrow> int \<Rightarrow> int" where
  "block_start a b = recvbuf a + b * recvcount a * type_extent (recvtype a)"

text \<open>
  The group has at most \<open>2 ^ 30\<close> processes, and the offset of the end of the receive
  buffer, \<open>size * recvcount\<close> elements and their bytes, stays in the range of an
  \<^verbatim>\<open>int\<close> and of an \<^verbatim>\<open>MPI_Aint\<close>: then no sum of ranks and the group size and no
  product of the builder overflows.
\<close>

definition offsets_in_range :: "allgather_args \<Rightarrow> bool" where
  "offsets_in_range a =
     (local_size (comm_ptr a) \<le> 2 ^ 30
      \<and> - (2 ^ 31) \<le> local_size (comm_ptr a) * recvcount a
      \<and> local_size (comm_ptr a) * recvcount a < 2 ^ 31
      \<and> - (2 ^ 63) \<le> local_size (comm_ptr a) * recvcount a * type_extent (recvtype a)
      \<and> local_size (comm_ptr a) * recvcount a * type_extent (recvtype a) < 2 ^ 63)"


text \<open>The communication steps of a schedule are its sends and receives.\<close>

fun is_comm :: "sched_entry \<Rightarrow> bool" where
  "is_comm (Sched_send buf count datatype dest) = True"
| "is_comm (Sched_recv buf count datatype src) = True"
| "is_comm e = False"

text \<open>
  The send and the receive that the specification describes for step \<open>i\<close> (counted from
  1) of the ring on the group of \<open>a\<close>.
\<close>

definition ring_send :: "allgather_args \<Rightarrow> int \<Rightarrow> sched_entry" where
  "ring_send a i =
     Sched_send
       (block_addr a ((rank (comm_ptr a) - i + 1) mod local_size (comm_ptr a)))
       (recvcount a) (recvtype a)
       ((rank (comm_ptr a) + 1) mod local_size (comm_ptr a))"

definition ring_recv :: "allgather_args \<Rightarrow> int \<Rightarrow> sched_entry" where
  "ring_recv a i =
     Sched_recv
       (block_addr a ((rank (comm_ptr a) - i) mod local_size (comm_ptr a)))
       (recvcount a) (recvtype a)
       ((rank (comm_ptr a) - 1 + local_size (comm_ptr a)) mod local_size (comm_ptr a))"

text \<open>
  The local copy of lines 33 to 35, from the send buffer at \<open>p\<close> to the caller's own
  block, and the steps the builder emits before the loop: nothing for an in-place call,
  the copy and a barrier otherwise.
\<close>

definition ring_copy :: "allgather_args \<Rightarrow> int \<Rightarrow> sched_entry" where
  "ring_copy a p =
     Sched_copy p (sendcount a) (sendtype a) (block_addr a (rank (comm_ptr a)))
       (recvcount a) (recvtype a)"

definition ring_prologue :: "allgather_args \<Rightarrow> sched_entry list" where
  "ring_prologue a =
     (case sendbuf a of MPI_IN_PLACE \<Rightarrow> [] | Address p \<Rightarrow> [ring_copy a p, Sched_barrier])"

text \<open>The buffer addresses of the receives of a schedule, in order.\<close>

fun recv_bufs :: "sched_entry list \<Rightarrow> int list" where
  "recv_bufs [] = []"
| "recv_bufs (Sched_recv buf count datatype src # es) = buf # recv_bufs es"
| "recv_bufs (e # es) = recv_bufs es"

text \<open>
  The phases of a schedule: the runs of steps between barriers, in order. \<open>cur\<close> is the
  run read since the last barrier; a run that no barrier closes is the last phase.
\<close>

fun phases_from :: "sched_entry list \<Rightarrow> sched_entry list \<Rightarrow> sched_entry list list" where
  "phases_from cur [] = (if cur = [] then [] else [cur])"
| "phases_from cur (Sched_barrier # es) = cur # phases_from [] es"
| "phases_from cur (e # es) = phases_from (cur @ [e]) es"

definition phases :: "sched_entry list \<Rightarrow> sched_entry list list" where
  "phases es = phases_from [] es"

text \<open>
  The phases the specification describes for the ring: the local copy alone unless the
  call is in place, then for each step the send together with the receive.
\<close>

definition ring_phases :: "allgather_args \<Rightarrow> sched_entry list list" where
  "ring_phases a =
     (case sendbuf a of MPI_IN_PLACE \<Rightarrow> [] | Address p \<Rightarrow> [[ring_copy a p]])
     @ map (\<lambda>i. [ring_send a i, ring_recv a i]) [1..local_size (comm_ptr a) - 1]"

text \<open>Error codes stay error codes under \<^verbatim>\<open>MPIR_ERR_POP\<close>.\<close>

definition pop_keeps_errors :: "macros \<Rightarrow> bool" where
  "pop_keeps_errors M = (\<forall>e. e \<noteq> 0 \<longrightarrow> MPIR_ERR_POP M e \<noteq> 0)"

text \<open>
  The composition in the words of the spec: start the non-blocking neighbor all-gather, then
  wait on the request it returned. \<open>and_then\<close> runs the second operation on the result of
  the first when the first succeeded, and otherwise stops with the first one's error code.
\<close>

definition and_then ::
  "int \<times> 'r \<times> 'm world \<Rightarrow> ('r \<Rightarrow> 'm world \<Rightarrow> int \<times> 'm world) \<Rightarrow> int \<times> 'm world" where
  "and_then started k =
     (if fst started = MPI_SUCCESS then k (fst (snd started)) (snd (snd started))
      else (fst started, snd (snd started)))"

definition start_then_wait ::
  "('m, 'r) externals \<Rightarrow> allgather_args \<Rightarrow> 'm world \<Rightarrow> int \<times> 'm world" where
  "start_then_wait X a w =
     and_then (call_start (MPID_Ineighbor_allgather X) a w) (call_wait (MPIR_Wait_impl X))"

section \<open>Concrete inputs\<close>

text \<open>
  An instance of the parameters on which the model is evaluated: an initialised library,
  error macros that leave a code as it is and report class 16 for a failure summary,
  argument checks that refuse a negative receive count, external routines that succeed and
  touch nothing, and emitters that never refuse.
\<close>

definition sample_macros :: macros where
  "sample_macros =
     \<lparr> MPIR_ERR_POP = (\<lambda>e. e),
       MPIR_ERR_SET = (\<lambda>e c msg. if e = 0 then 16 else e),
       MPIR_Err_create_code = (\<lambda>e msg. e),
       MPIR_Err_return_comm = (\<lambda>c e. e),
       INITIALIZED = True,
       HAVE_ERROR_CHECKING = True,
       ERRTEST = (\<lambda>a. if recvcount a < 0 then 2 else MPI_SUCCESS),
       Aint_fits_in_pointer = (\<lambda>k. True) \<rparr>"

definition quiet_coll :: "unit coll_fn" where
  "quiet_coll a errflag m = (MPI_SUCCESS, errflag, m)"

definition quiet_externals :: "(unit, unit) externals" where
  "quiet_externals =
     \<lparr> MPIR_Allgather_recursive_doubling = quiet_coll,
       MPIR_Allgather_brucks = quiet_coll,
       MPIR_Allgather_ring = quiet_coll,
       MPIR_Allgather_generic_inter = quiet_coll,
       MPID_Allgather = quiet_coll,
       MPID_Ineighbor_allgather = (\<lambda>a m. (MPI_SUCCESS, (), m)),
       MPIR_Wait_impl = (\<lambda>r m. (MPI_SUCCESS, m)) \<rparr>"

text \<open>
  An intra-group call of rank \<open>rk\<close> in a group of \<open>sz\<close> processes, sending and receiving
  \<open>cnt\<close> elements of \<open>tsz\<close> bytes.
\<close>

definition sample_args :: "int \<Rightarrow> int \<Rightarrow> int \<Rightarrow> int \<Rightarrow> allgather_args" where
  "sample_args rk sz cnt tsz =
     \<lparr> sendbuf = Address 4096, sendcount = cnt,
       sendtype = \<lparr> type_size = tsz, type_extent = tsz \<rparr>,
       recvbuf = 65536, recvcount = cnt,
       recvtype = \<lparr> type_size = tsz, type_extent = tsz \<rparr>,
       comm_ptr = \<lparr> comm_kind = MPIR_COMM_KIND__INTRACOMM, rank = rk, local_size = sz \<rparr> \<rparr>"

definition empty_world :: "unit world" where
  "empty_world = \<lparr> mem = (), calls = [] \<rparr>"

definition never_refuses :: sched_refusal where
  "never_refuses e s = MPI_SUCCESS"

text \<open>External routines that succeed but leave the failure flag set.\<close>

definition flagging_coll :: "unit coll_fn" where
  "flagging_coll a errflag m = (MPI_SUCCESS, MPIR_ERR_PROC_FAILED, m)"

definition flagging_externals :: "(unit, unit) externals" where
  "flagging_externals =
     \<lparr> MPIR_Allgather_recursive_doubling = flagging_coll,
       MPIR_Allgather_brucks = flagging_coll,
       MPIR_Allgather_ring = flagging_coll,
       MPIR_Allgather_generic_inter = flagging_coll,
       MPID_Allgather = flagging_coll,
       MPID_Ineighbor_allgather = (\<lambda>a m. (MPI_SUCCESS, (), m)),
       MPIR_Wait_impl = (\<lambda>r m. (MPI_SUCCESS, m)) \<rparr>"

text \<open>External routines whose non-blocking neighbor start fails with code 34.\<close>

definition failing_start_externals :: "(unit, unit) externals" where
  "failing_start_externals =
     quiet_externals \<lparr> MPID_Ineighbor_allgather := (\<lambda>a m. (34, (), m)) \<rparr>"

text \<open>A call of rank 0 in a group of 4 with send and receive count zero.\<close>

definition zero_recv_args :: allgather_args where
  "zero_recv_args = sample_args 0 4 0 4"

definition zero_recv_inter_args :: allgather_args where
  "zero_recv_inter_args =
     zero_recv_args \<lparr> comm_ptr :=
       \<lparr> comm_kind = MPIR_COMM_KIND__INTERCOMM, rank = 0, local_size = 4 \<rparr> \<rparr>"

text \<open>The defaults with the ring algorithm forced, and with the global device switch off.\<close>

definition forced_ring_cvars :: cvars where
  "forced_ring_cvars =
     default_cvars \<lparr> MPIR_Allgather_alg_intra_choice := MPIR_ALLGATHER_ALG_INTRA_RING \<rparr>"

definition device_switch_off_cvars :: cvars where
  "device_switch_off_cvars = default_cvars \<lparr> MPIR_CVAR_DEVICE_COLLECTIVES := False \<rparr>"

text \<open>
  Rank 2 of 5 with 10 elements of 4 bytes per block: the receive buffer is at 65536, block
  \<open>b\<close> at \<open>65536 + 40 * b\<close>, the right neighbor is 3 and the left one is 1.
  \<open>ring5_steps\<close> is the schedule of the in-place call, \<open>ring5_schedule\<close> the one
  of the call with a send buffer at 4096.
\<close>

definition int32 :: MPI_Datatype where
  "int32 = \<lparr> type_size = 4, type_extent = 4 \<rparr>"

definition ring5_steps :: "sched_entry list" where
  "ring5_steps =
     [Sched_send 65616 10 int32 3, Sched_recv 65576 10 int32 1, Sched_barrier,
      Sched_send 65576 10 int32 3, Sched_recv 65536 10 int32 1, Sched_barrier,
      Sched_send 65536 10 int32 3, Sched_recv 65696 10 int32 1, Sched_barrier,
      Sched_send 65696 10 int32 3, Sched_recv 65656 10 int32 1, Sched_barrier]"

definition ring5_schedule :: "sched_entry list" where
  "ring5_schedule = Sched_copy 4096 10 int32 65616 10 int32 # Sched_barrier # ring5_steps"

definition in_place_args :: allgather_args where
  "in_place_args = (sample_args 2 5 10 4) \<lparr> sendbuf := MPI_IN_PLACE \<rparr>"

text \<open>
  Rank 0 of 5 in place with \<open>2 ^ 30\<close> elements of 4 bytes per block: the \<^verbatim>\<open>int\<close>
  products of a block index and the count overflow from block 2 on. And external routines
  that write to the memory, here a list of integers, on every call.
\<close>

definition huge_in_place_args :: allgather_args where
  "huge_in_place_args = (sample_args 0 5 (2 ^ 30) 4) \<lparr> sendbuf := MPI_IN_PLACE \<rparr>"

definition writing_coll :: "int list coll_fn" where
  "writing_coll a errflag m = (MPI_SUCCESS, errflag, recvcount a # m)"

definition written_world :: "int list world" where
  "written_world = \<lparr> mem = [7], calls = [] \<rparr>"

definition writing_externals :: "(int list, unit) externals" where
  "writing_externals =
     \<lparr> MPIR_Allgather_recursive_doubling = writing_coll,
       MPIR_Allgather_brucks = writing_coll,
       MPIR_Allgather_ring = writing_coll,
       MPIR_Allgather_generic_inter = writing_coll,
       MPID_Allgather = writing_coll,
       MPID_Ineighbor_allgather = (\<lambda>a m. (MPI_SUCCESS, (), m)),
       MPIR_Wait_impl = (\<lambda>r m. (MPI_SUCCESS, m)) \<rparr>"

section \<open>Arithmetic of the selection test\<close>

lemma pow2_even_half:
  fixes m :: nat
  assumes "0 < m"
  shows "(\<exists>k. 2 * m = 2 ^ k) = (\<exists>k. m = 2 ^ k)"
proof
  assume "\<exists>k. 2 * m = 2 ^ k"
  then obtain k where k: "2 * m = 2 ^ k" by blast
  with assms have "k \<noteq> 0" by (cases k) auto
  then obtain k' where "k = Suc k'" by (cases k) auto
  with k have "m = 2 ^ k'" by simp
  then show "\<exists>k. m = 2 ^ k" by blast
next
  assume "\<exists>k. m = 2 ^ k"
  then obtain k where "m = 2 ^ k" by blast
  then have "2 * m = 2 ^ Suc k" by simp
  then show "\<exists>k. 2 * m = 2 ^ k" by blast
qed

lemma pow2_odd:
  fixes m :: nat
  shows "(\<exists>k. 2 * m + 1 = 2 ^ k) = (m = 0)"
proof
  assume "\<exists>k. 2 * m + 1 = 2 ^ k"
  then obtain k where k: "2 * m + 1 = 2 ^ k" by blast
  have "k = 0"
  proof (rule ccontr)
    assume "k \<noteq> 0"
    then have "even ((2::nat) ^ k)" by simp
    with k show False by (metis even_add even_mult_iff odd_one dvd_refl)
  qed
  with k show "m = 0" by simp
next
  assume "m = 0"
  then have "2 * m + 1 = 2 ^ 0" by simp
  then show "\<exists>k. 2 * m + 1 = 2 ^ k" by blast
qed

text \<open>The test \<^verbatim>\<open>!(comm_size & (comm_size - 1))\<close> on a positive value.\<close>

lemma and_pred_nat: "0 < n \<Longrightarrow> (and (int n) (int n - 1) = 0) = (\<exists>k. n = 2 ^ k)"
proof (induction n rule: less_induct)
  case (less n)
  show ?case
  proof (cases "even n")
    case True
    then obtain m where m: "n = 2 * m" by (elim evenE)
    with less.prems have mpos: "0 < m" by simp
    have h: "(2 * int m - 1) div 2 = int m - 1" by presburger
    have "and (int n) (int n - 1) = 2 * and (int m) (int m - 1)"
      unfolding m by (subst and_int_rec) (simp add: h)
    moreover have "(and (int m) (int m - 1) = 0) = (\<exists>k. m = 2 ^ k)"
      using less.IH [of m] mpos m by simp
    ultimately show ?thesis
      using pow2_even_half [OF mpos] m by simp
  next
    case False
    then obtain m where m: "n = 2 * m + 1" by (elim oddE)
    have "and (int n) (int n - 1) = 2 * int m"
      unfolding m by (subst and_int_rec) simp
    then show ?thesis
      using pow2_odd [of m] m by simp
  qed
qed

lemma and_pred_int:
  fixes n :: int
  assumes "0 < n"
  shows "(and n (n - 1) = 0) = (\<exists>k::nat. n = 2 ^ k)"
proof -
  have "(and (int (nat n)) (int (nat n) - 1) = 0) = (\<exists>k. nat n = 2 ^ k)"
    using assms by (intro and_pred_nat) simp
  moreover have "(\<exists>k. nat n = 2 ^ k) = (\<exists>k::nat. n = 2 ^ k)"
  proof
    assume "\<exists>k. nat n = 2 ^ k"
    then obtain k where "nat n = 2 ^ k" by blast
    then have "int (nat n) = 2 ^ k" by simp
    with assms show "\<exists>k::nat. n = 2 ^ k" by auto
  next
    assume "\<exists>k::nat. n = 2 ^ k"
    then obtain k :: nat where "n = 2 ^ k" by blast
    then have "nat n = 2 ^ k" by (simp add: nat_power_eq)
    then show "\<exists>k. nat n = 2 ^ k" by blast
  qed
  ultimately show ?thesis using assms by simp
qed

lemma MPI_Aint_of_id: "- (2 ^ 63) \<le> k \<Longrightarrow> k < 2 ^ 63 \<Longrightarrow> MPI_Aint_of k = k"
  unfolding MPI_Aint_of_def by (simp add: signed_take_bit_int_eq_self)

lemma C_int_of_id: "- (2 ^ 31) \<le> k \<Longrightarrow> k < 2 ^ 31 \<Longrightarrow> C_int_of k = k"
  unfolding C_int_of_def by (simp add: signed_take_bit_int_eq_self)

section \<open>The automatic selection\<close>

lemma intra_zero_size:
  "zero_size_call a \<Longrightarrow> MPIR_Allgather_intra M C X a errflag w = (MPI_SUCCESS, errflag, w)"
  by (simp add: MPIR_Allgather_intra_def zero_size_call_def)

text \<open>The routine chosen by the chain of tests of lines 176 to 187.\<close>

lemma intra_nonzero:
  assumes "\<not> zero_size_call a"
  shows "snd (MPIR_Allgather_intra M C X a errflag w) =
     snd (if MPI_Aint_of (recvcount a * local_size (comm_ptr a)
                 * C_int_of (type_size (recvtype a)))
               < MPIR_CVAR_ALLGATHER_LONG_MSG_SIZE C
             \<and> and (local_size (comm_ptr a)) (local_size (comm_ptr a) - 1) = 0
          then call_coll Call_Allgather_recursive_doubling
                 (MPIR_Allgather_recursive_doubling X) a errflag w
          else if MPI_Aint_of (recvcount a * local_size (comm_ptr a)
                 * C_int_of (type_size (recvtype a)))
               < MPIR_CVAR_ALLGATHER_SHORT_MSG_SIZE C
          then call_coll Call_Allgather_brucks (MPIR_Allgather_brucks X) a errflag w
          else call_coll Call_Allgather_ring (MPIR_Allgather_ring X) a errflag w)"
  using assms
  by (auto simp add: MPIR_Allgather_intra_def zero_size_call_def Let_def
      MPIR_Datatype_get_size_macro_def split: prod.splits)

text \<open>
  C1. For an intra-group call through the automatic selection that is not a zero-size
  call, with a positive group size, a size of the receive type that an \<^verbatim>\<open>int\<close> holds
  and a product \<open>n = recvcount * size * type_size\<close> that an \<^verbatim>\<open>MPI_Aint\<close> holds: when
  \<open>n\<close> is below the long-message threshold and the size is a power of two, the
  recursive-doubling routine is the one called; otherwise, when \<open>n\<close> is below the
  short-message threshold, Bruck's routine is; otherwise the ring routine is. The first
  case does not look at the short-message threshold.
\<close>

theorem auto_selection_policy:
  assumes "\<not> zero_size_call a"
    and "0 < local_size (comm_ptr a)"
    and "- (2 ^ 31) \<le> type_size (recvtype a)" and "type_size (recvtype a) < 2 ^ 31"
    and "- (2 ^ 63) \<le> tot_bytes_exact a" and "tot_bytes_exact a < 2 ^ 63"
  shows
    "(tot_bytes_exact a < MPIR_CVAR_ALLGATHER_LONG_MSG_SIZE C
        \<and> (\<exists>k::nat. local_size (comm_ptr a) = 2 ^ k) \<longrightarrow>
      snd (MPIR_Allgather_intra M C X a errflag w) =
        snd (call_coll Call_Allgather_recursive_doubling
               (MPIR_Allgather_recursive_doubling X) a errflag w))
     \<and> (\<not> (tot_bytes_exact a < MPIR_CVAR_ALLGATHER_LONG_MSG_SIZE C
             \<and> (\<exists>k::nat. local_size (comm_ptr a) = 2 ^ k))
          \<and> tot_bytes_exact a < MPIR_CVAR_ALLGATHER_SHORT_MSG_SIZE C \<longrightarrow>
      snd (MPIR_Allgather_intra M C X a errflag w) =
        snd (call_coll Call_Allgather_brucks (MPIR_Allgather_brucks X) a errflag w))
     \<and> (\<not> (tot_bytes_exact a < MPIR_CVAR_ALLGATHER_LONG_MSG_SIZE C
             \<and> (\<exists>k::nat. local_size (comm_ptr a) = 2 ^ k))
          \<and> \<not> tot_bytes_exact a < MPIR_CVAR_ALLGATHER_SHORT_MSG_SIZE C \<longrightarrow>
      snd (MPIR_Allgather_intra M C X a errflag w) =
        snd (call_coll Call_Allgather_ring (MPIR_Allgather_ring X) a errflag w))"
proof -
  have narrow: "C_int_of (type_size (recvtype a)) = type_size (recvtype a)"
    using assms(3,4) by (rule C_int_of_id)
  have fits: "MPI_Aint_of (recvcount a * local_size (comm_ptr a)
                 * C_int_of (type_size (recvtype a)))
      = tot_bytes_exact a"
    unfolding narrow
    using assms(5,6) MPI_Aint_of_id [of "tot_bytes_exact a"]
    by (simp add: tot_bytes_exact_def)
  have pow2: "(and (local_size (comm_ptr a)) (local_size (comm_ptr a) - 1) = 0)
      = (\<exists>k::nat. local_size (comm_ptr a) = 2 ^ k)"
    using assms(2) by (rule and_pred_int)
  show ?thesis
    unfolding intra_nonzero [OF assms(1)] fits pow2 by auto
qed

text \<open>
  With the default thresholds: 8 processes and 131072 bytes (between the two thresholds)
  take recursive doubling, 6 processes and 49152 bytes take Bruck's algorithm, 6 processes
  and 98304 bytes take the ring.
\<close>

theorem auto_selection_policy_witness:
  "snd (MPIR_Allgather_intra sample_macros default_cvars quiet_externals
          (sample_args 3 8 1024 16) MPIR_ERR_NONE empty_world)
     = (MPIR_ERR_NONE, \<lparr> mem = (), calls = [(Call_Allgather_recursive_doubling, 0)] \<rparr>)
   \<and> snd (MPIR_Allgather_intra sample_macros default_cvars quiet_externals
          (sample_args 3 6 1024 8) MPIR_ERR_NONE empty_world)
     = (MPIR_ERR_NONE, \<lparr> mem = (), calls = [(Call_Allgather_brucks, 0)] \<rparr>)
   \<and> snd (MPIR_Allgather_intra sample_macros default_cvars quiet_externals
          (sample_args 3 6 1024 16) MPIR_ERR_NONE empty_world)
     = (MPIR_ERR_NONE, \<lparr> mem = (), calls = [(Call_Allgather_ring, 0)] \<rparr>)"
proof -
  have p: "\<exists>k::nat. (8::int) = 2 ^ k"
    by (rule exI [of _ 3]) simp
  have q: "\<not> (\<exists>k::nat. (6::int) = 2 ^ k)"
    using and_pred_int [of 6] by simp
  show ?thesis
    using p q
      auto_selection_policy [of "sample_args 3 8 1024 16" default_cvars sample_macros
        quiet_externals MPIR_ERR_NONE empty_world]
      auto_selection_policy [of "sample_args 3 6 1024 8" default_cvars sample_macros
        quiet_externals MPIR_ERR_NONE empty_world]
      auto_selection_policy [of "sample_args 3 6 1024 16" default_cvars sample_macros
        quiet_externals MPIR_ERR_NONE empty_world]
    by (simp add: sample_args_def default_cvars_def tot_bytes_exact_def quiet_externals_def
        quiet_coll_def call_coll_def empty_world_def MPI_SUCCESS_def zero_size_call_def)
qed

lemma invoked_call_coll:
  "invoked w (snd (snd (call_coll c f a errflag w))) = [c]"
  by (simp add: invoked_def call_coll_def split: prod.splits)

lemma call_coll_split:
  "call_coll c f a errflag w =
     (fst (f a errflag (mem w)), fst (snd (f a errflag (mem w))),
      \<lparr> mem = snd (snd (f a errflag (mem w))),
        calls = calls w @ [(c, fst (f a errflag (mem w)))] \<rparr>)"
  by (simp add: call_coll_def split: prod.splits)

lemma intra_invoked:
  assumes "\<not> zero_size_call a"
  shows "invoked w (snd (snd (MPIR_Allgather_intra M C X a errflag w))) =
     [if MPI_Aint_of (recvcount a * local_size (comm_ptr a)
                 * C_int_of (type_size (recvtype a)))
               < MPIR_CVAR_ALLGATHER_LONG_MSG_SIZE C
             \<and> and (local_size (comm_ptr a)) (local_size (comm_ptr a) - 1) = 0
          then Call_Allgather_recursive_doubling
          else if MPI_Aint_of (recvcount a * local_size (comm_ptr a)
                 * C_int_of (type_size (recvtype a)))
               < MPIR_CVAR_ALLGATHER_SHORT_MSG_SIZE C
          then Call_Allgather_brucks
          else Call_Allgather_ring]"
  unfolding intra_nonzero [OF assms] by (simp add: invoked_call_coll)

text \<open>
  C9. Two calls through the automatic selection that both pass the zero-size test and
  agree on the receive count, the size of the receive type, the group size and the
  configuration invoke the same routine, whatever their ranks, buffers, send arguments,
  failure flags, memories and external routines are; and each invokes exactly one routine.
\<close>

theorem selection_rank_independent:
  assumes "\<not> zero_size_call a" and "\<not> zero_size_call a'"
    and "recvcount a = recvcount a'"
    and "type_size (recvtype a) = type_size (recvtype a')"
    and "local_size (comm_ptr a) = local_size (comm_ptr a')"
  shows "invoked w (snd (snd (MPIR_Allgather_intra M C X a errflag w))) =
         invoked w' (snd (snd (MPIR_Allgather_intra M' C X' a' errflag' w')))
     \<and> (\<exists>c. invoked w (snd (snd (MPIR_Allgather_intra M C X a errflag w))) = [c])"
  unfolding intra_invoked [OF assms(1)] intra_invoked [OF assms(2)]
  using assms(3-5) by simp

text \<open>
  Rank 0 with a separate send buffer and rank 5 in place, with another receive buffer and
  a failure flag already set, both take Bruck's algorithm for 6 processes and 49152 bytes.
\<close>

theorem selection_rank_independent_witness:
  "invoked empty_world
     (snd (snd (MPIR_Allgather_intra sample_macros default_cvars quiet_externals
        (sample_args 0 6 1024 8) MPIR_ERR_NONE empty_world))) = [Call_Allgather_brucks]
   \<and> invoked empty_world
     (snd (snd (MPIR_Allgather_intra sample_macros default_cvars quiet_externals
        ((sample_args 5 6 1024 8) \<lparr> sendbuf := MPI_IN_PLACE, recvbuf := 1024 \<rparr>)
        MPIR_ERR_OTHER empty_world))) = [Call_Allgather_brucks]"
proof -
  have "invoked empty_world
     (snd (snd (MPIR_Allgather_intra sample_macros default_cvars quiet_externals
        (sample_args 0 6 1024 8) MPIR_ERR_NONE empty_world))) = [Call_Allgather_brucks]"
    by (simp add: MPIR_Allgather_intra_def sample_args_def default_cvars_def
        quiet_externals_def quiet_coll_def call_coll_def empty_world_def MPI_SUCCESS_def
        invoked_def MPI_Aint_of_def C_int_of_def MPIR_Datatype_get_size_macro_def
        signed_take_bit_int_eq_self)
  then show ?thesis
    using selection_rank_independent [of "sample_args 0 6 1024 8"
        "(sample_args 5 6 1024 8) \<lparr> sendbuf := MPI_IN_PLACE, recvbuf := 1024 \<rparr>"
        empty_world sample_macros default_cvars quiet_externals MPIR_ERR_NONE
        empty_world sample_macros quiet_externals MPIR_ERR_OTHER]
    by (simp add: sample_args_def zero_size_call_def)
qed

section \<open>The failure summary at the exit of the automatic selection\<close>

text \<open>
  The value \<^verbatim>\<open>MPIR_Allgather_intra\<close> returns, from the code \<open>e\<close> and the flag that the
  routine it selected returned.
\<close>

lemma intra_exit:
  assumes "\<not> zero_size_call a"
  shows "\<exists>c e errflag' w'.
      MPIR_Allgather_intra M C X a errflag w =
        (if errflag' \<noteq> MPIR_ERR_NONE
         then MPIR_ERR_SET M (if e \<noteq> 0 then MPIR_ERR_POP M e else e) errflag' ''**coll_fail''
         else if e \<noteq> 0 then MPIR_ERR_POP M e else e,
         errflag', w')
      \<and> calls w' = calls w @ [(c, e)]
      \<and> c \<in> {Call_Allgather_recursive_doubling, Call_Allgather_brucks, Call_Allgather_ring}"
proof -
  let ?n = "MPI_Aint_of (recvcount a * local_size (comm_ptr a)
                 * C_int_of (type_size (recvtype a)))"
  let ?rd = "?n < MPIR_CVAR_ALLGATHER_LONG_MSG_SIZE C
             \<and> and (local_size (comm_ptr a)) (local_size (comm_ptr a) - 1) = 0"
  let ?c = "if ?rd then Call_Allgather_recursive_doubling
            else if ?n < MPIR_CVAR_ALLGATHER_SHORT_MSG_SIZE C then Call_Allgather_brucks
            else Call_Allgather_ring"
  let ?f = "if ?rd then MPIR_Allgather_recursive_doubling X
            else if ?n < MPIR_CVAR_ALLGATHER_SHORT_MSG_SIZE C then MPIR_Allgather_brucks X
            else MPIR_Allgather_ring X"
  let ?e = "fst (?f a errflag (mem w))"
  let ?fl = "fst (snd (?f a errflag (mem w)))"
  let ?w = "\<lparr> mem = snd (snd (?f a errflag (mem w))), calls = calls w @ [(?c, ?e)] \<rparr>"
  have "MPIR_Allgather_intra M C X a errflag w =
        (if ?fl \<noteq> MPIR_ERR_NONE
         then MPIR_ERR_SET M (if ?e \<noteq> 0 then MPIR_ERR_POP M ?e else ?e) ?fl ''**coll_fail''
         else if ?e \<noteq> 0 then MPIR_ERR_POP M ?e else ?e,
         ?fl, ?w)"
    unfolding MPIR_Allgather_intra_def zero_size_call_def [symmetric]
    using assms
    by (simp add: Let_def call_coll_split MPI_SUCCESS_def MPIR_Datatype_get_size_macro_def)
  moreover have "calls ?w = calls w @ [(?c, ?e)]" by simp
  moreover have "?c \<in> {Call_Allgather_recursive_doubling, Call_Allgather_brucks,
      Call_Allgather_ring}" by simp
  ultimately show ?thesis by blast
qed

text \<open>
  C6. For an intra-group call through the automatic selection that passes the zero-size
  test, let \<open>e\<close> be the code the selected routine returned (the one entry the call adds
  to the log) and \<open>errflag'\<close> the failure flag at the exit. When the flag is set and the
  routine returned success, the call returns the code that \<^verbatim>\<open>MPIR_ERR_SET\<close> makes from
  success, the flag and the message \<^verbatim>\<open>**coll_fail\<close>; when the flag is set and the routine
  failed, it returns the code made in the same way from the routine's error; when the flag
  is clear and the routine returned success, the call returns success.
\<close>

theorem failure_flag_summary:
  assumes "\<not> zero_size_call a"
    and "MPIR_Allgather_intra M C X a errflag w = (r, errflag', w')"
  shows "\<exists>c e. calls w' = calls w @ [(c, e)]
     \<and> (errflag' \<noteq> MPIR_ERR_NONE \<and> e = MPI_SUCCESS \<longrightarrow>
          r = MPIR_ERR_SET M MPI_SUCCESS errflag' ''**coll_fail'')
     \<and> (errflag' \<noteq> MPIR_ERR_NONE \<and> e \<noteq> MPI_SUCCESS \<longrightarrow>
          r = MPIR_ERR_SET M (MPIR_ERR_POP M e) errflag' ''**coll_fail'')
     \<and> (errflag' = MPIR_ERR_NONE \<and> e = MPI_SUCCESS \<longrightarrow> r = MPI_SUCCESS)"
proof -
  from intra_exit [OF assms(1), of M C X errflag w]
  obtain c e f v where
    eq: "MPIR_Allgather_intra M C X a errflag w =
        (if f \<noteq> MPIR_ERR_NONE
         then MPIR_ERR_SET M (if e \<noteq> 0 then MPIR_ERR_POP M e else e) f ''**coll_fail''
         else if e \<noteq> 0 then MPIR_ERR_POP M e else e, f, v)"
    and log: "calls v = calls w @ [(c, e)]"
    by blast
  from eq assms(2) have "f = errflag'" and "v = w'"
    and r: "r = (if f \<noteq> MPIR_ERR_NONE
         then MPIR_ERR_SET M (if e \<noteq> 0 then MPIR_ERR_POP M e else e) f ''**coll_fail''
         else if e \<noteq> 0 then MPIR_ERR_POP M e else e)"
    by simp_all
  with log show ?thesis
    by (intro exI [of _ c] exI [of _ e]) (simp add: MPI_SUCCESS_def)
qed

text \<open>
  A recursive-doubling routine that returns success and sets the flag makes the call
  return the failure summary, 16 with the sample macros; one that leaves the flag clear
  makes it return success.
\<close>

theorem failure_flag_summary_witness:
  "MPIR_Allgather_intra sample_macros default_cvars flagging_externals
          (sample_args 3 8 1024 16) MPIR_ERR_NONE empty_world
     = (16, MPIR_ERR_PROC_FAILED,
        \<lparr> mem = (), calls = [(Call_Allgather_recursive_doubling, 0)] \<rparr>)
   \<and> MPIR_ERR_SET sample_macros MPI_SUCCESS MPIR_ERR_PROC_FAILED ''**coll_fail'' = 16
   \<and> MPIR_Allgather_intra sample_macros default_cvars quiet_externals
          (sample_args 3 8 1024 16) MPIR_ERR_NONE empty_world
     = (MPI_SUCCESS, MPIR_ERR_NONE,
        \<lparr> mem = (), calls = [(Call_Allgather_recursive_doubling, 0)] \<rparr>)"
proof -
  have nz: "\<not> zero_size_call (sample_args 3 8 1024 16)"
    by (simp add: zero_size_call_def sample_args_def)
  have run1: "MPIR_Allgather_intra sample_macros default_cvars flagging_externals
          (sample_args 3 8 1024 16) MPIR_ERR_NONE empty_world
     = (16, MPIR_ERR_PROC_FAILED,
        \<lparr> mem = (), calls = [(Call_Allgather_recursive_doubling, 0)] \<rparr>)"
    by (simp add: MPIR_Allgather_intra_def sample_args_def default_cvars_def
        flagging_externals_def flagging_coll_def call_coll_def empty_world_def MPI_SUCCESS_def
        MPI_Aint_of_def C_int_of_def MPIR_Datatype_get_size_macro_def sample_macros_def
        signed_take_bit_int_eq_self)
  have run2: "MPIR_Allgather_intra sample_macros default_cvars quiet_externals
          (sample_args 3 8 1024 16) MPIR_ERR_NONE empty_world
     = (MPI_SUCCESS, MPIR_ERR_NONE,
        \<lparr> mem = (), calls = [(Call_Allgather_recursive_doubling, 0)] \<rparr>)"
    by (simp add: MPIR_Allgather_intra_def sample_args_def default_cvars_def
        quiet_externals_def quiet_coll_def call_coll_def empty_world_def MPI_SUCCESS_def
        MPI_Aint_of_def C_int_of_def MPIR_Datatype_get_size_macro_def sample_macros_def
        signed_take_bit_int_eq_self)
  from failure_flag_summary [OF nz run1] failure_flag_summary [OF nz run2] run1 run2
  show ?thesis
    by (simp add: sample_macros_def MPI_SUCCESS_def)
qed

section \<open>Zero-size calls and the dispatch\<close>

text \<open>The routine \<^verbatim>\<open>MPIR_Allgather\<close> hands the call to, by group kind and override.\<close>

lemma Allgather_dispatch:
  "snd (MPIR_Allgather M C X a errflag w) =
     snd (if comm_kind (comm_ptr a) = MPIR_COMM_KIND__INTRACOMM
          then (case MPIR_Allgather_alg_intra_choice C of
                  MPIR_ALLGATHER_ALG_INTRA_BRUCKS \<Rightarrow>
                    call_coll Call_Allgather_brucks (MPIR_Allgather_brucks X) a errflag w
                | MPIR_ALLGATHER_ALG_INTRA_RECURSIVE_DOUBLING \<Rightarrow>
                    call_coll Call_Allgather_recursive_doubling
                      (MPIR_Allgather_recursive_doubling X) a errflag w
                | MPIR_ALLGATHER_ALG_INTRA_RING \<Rightarrow>
                    call_coll Call_Allgather_ring (MPIR_Allgather_ring X) a errflag w
                | MPIR_ALLGATHER_ALG_INTRA_AUTO \<Rightarrow>
                    MPIR_Allgather_intra M C X a errflag w)
          else call_coll Call_Allgather_generic_inter
                 (MPIR_Allgather_generic_inter X) a errflag w)"
  by (simp add: MPIR_Allgather_def MPIR_Allgather_inter_def
      split: prod.splits MPIR_Allgather_alg_intra_t.splits MPIR_Allgather_alg_inter_t.splits)

lemma Allgather_auto_zero_size:
  assumes "zero_size_call a"
    and "comm_kind (comm_ptr a) = MPIR_COMM_KIND__INTRACOMM"
    and "MPIR_Allgather_alg_intra_choice C = MPIR_ALLGATHER_ALG_INTRA_AUTO"
  shows "MPIR_Allgather M C X a errflag w = (MPI_SUCCESS, errflag, w)"
  using assms
  by (simp add: MPIR_Allgather_def intra_zero_size MPI_SUCCESS_def)

lemma call_zero_size_noop:
  assumes "zero_size_call a"
  shows "call_coll c (zero_size_noop f) a errflag w =
     (MPI_SUCCESS, errflag, \<lparr> mem = mem w, calls = calls w @ [(c, MPI_SUCCESS)] \<rparr>)"
  using assms by (simp add: call_coll_def zero_size_noop_def)

lemma Allgather_spec_zero_size:
  assumes "zero_size_call a"
  shows "fst (MPIR_Allgather M C (spec_algorithms X) a errflag w) = MPI_SUCCESS
     \<and> fst (snd (MPIR_Allgather M C (spec_algorithms X) a errflag w)) = errflag
     \<and> mem (snd (snd (MPIR_Allgather M C (spec_algorithms X) a errflag w))) = mem w"
proof (cases "comm_kind (comm_ptr a) = MPIR_COMM_KIND__INTRACOMM")
  case True
  show ?thesis
  proof (cases "MPIR_Allgather_alg_intra_choice C")
    case MPIR_ALLGATHER_ALG_INTRA_AUTO
    with True assms show ?thesis
      by (simp add: Allgather_auto_zero_size)
  next
    case MPIR_ALLGATHER_ALG_INTRA_BRUCKS
    with True show ?thesis
      by (simp add: MPIR_Allgather_def spec_algorithms_def call_zero_size_noop [OF assms]
          MPI_SUCCESS_def)
  next
    case MPIR_ALLGATHER_ALG_INTRA_RECURSIVE_DOUBLING
    with True show ?thesis
      by (simp add: MPIR_Allgather_def spec_algorithms_def call_zero_size_noop [OF assms]
          MPI_SUCCESS_def)
  next
    case MPIR_ALLGATHER_ALG_INTRA_RING
    with True show ?thesis
      by (simp add: MPIR_Allgather_def spec_algorithms_def call_zero_size_noop [OF assms]
          MPI_SUCCESS_def)
  qed
next
  case False
  then show ?thesis
    by (cases "MPIR_Allgather_alg_inter_choice C")
      (simp_all add: MPIR_Allgather_def MPIR_Allgather_inter_def spec_algorithms_def
        call_zero_size_noop [OF assms] MPI_SUCCESS_def)
qed

text \<open>
  C3. A zero-size call (send count zero and not in place, or receive count zero) that
  reaches the automatic intra-group selection returns success at once: no external
  routine is invoked, and the failure flag, the memory and the log are as before. This is
  the test of line 168 and holds for any external routines, for \<^verbatim>\<open>MPIR_Allgather_intra\<close>
  itself and for \<^verbatim>\<open>MPIR_Allgather\<close> on an intra-group communicator with the override at
  \<^verbatim>\<open>auto\<close>. With a forced algorithm, or on an inter-group communicator,
  \<^verbatim>\<open>MPIR_Allgather\<close> hands the call to an algorithm routine; with the algorithm routines
  of the spec, which return at once on a zero-size call, \<^verbatim>\<open>MPIR_Allgather\<close> returns
  success on every path, with the failure flag and the memory, so the receive buffer, as
  they were.
\<close>

theorem zero_size_call_is_noop:
  assumes "zero_size_call a"
  shows "MPIR_Allgather_intra M C X a errflag w = (MPI_SUCCESS, errflag, w)
     \<and> (comm_kind (comm_ptr a) = MPIR_COMM_KIND__INTRACOMM
          \<and> MPIR_Allgather_alg_intra_choice C = MPIR_ALLGATHER_ALG_INTRA_AUTO \<longrightarrow>
        MPIR_Allgather M C X a errflag w = (MPI_SUCCESS, errflag, w))
     \<and> fst (MPIR_Allgather M C (spec_algorithms X) a errflag w) = MPI_SUCCESS
     \<and> fst (snd (MPIR_Allgather M C (spec_algorithms X) a errflag w)) = errflag
     \<and> mem (snd (snd (MPIR_Allgather M C (spec_algorithms X) a errflag w))) = mem w"
proof -
  have "MPIR_Allgather_intra M C X a errflag w = (MPI_SUCCESS, errflag, w)"
    using assms by (rule intra_zero_size)
  moreover have "comm_kind (comm_ptr a) = MPIR_COMM_KIND__INTRACOMM
          \<and> MPIR_Allgather_alg_intra_choice C = MPIR_ALLGATHER_ALG_INTRA_AUTO \<longrightarrow>
        MPIR_Allgather M C X a errflag w = (MPI_SUCCESS, errflag, w)"
    using assms by (simp add: Allgather_auto_zero_size)
  ultimately show ?thesis
    using Allgather_spec_zero_size [OF assms, of M C X errflag w] by simp
qed

text \<open>
  The zero-size call under the defaults, under a forced ring and on an inter-group
  communicator, with algorithm routines that write to the memory on every other call: the
  memory \<open>[7]\<close> is left as it was.
\<close>

theorem zero_size_call_is_noop_witness:
  "zero_size_call zero_recv_args
   \<and> MPIR_Allgather sample_macros default_cvars (spec_algorithms writing_externals)
        zero_recv_args MPIR_ERR_NONE written_world
      = (MPI_SUCCESS, MPIR_ERR_NONE, written_world)
   \<and> MPIR_Allgather sample_macros forced_ring_cvars (spec_algorithms writing_externals)
        zero_recv_args MPIR_ERR_NONE written_world
      = (MPI_SUCCESS, MPIR_ERR_NONE, \<lparr> mem = [7], calls = [(Call_Allgather_ring, 0)] \<rparr>)
   \<and> MPIR_Allgather sample_macros default_cvars (spec_algorithms writing_externals)
        zero_recv_inter_args MPIR_ERR_NONE written_world
      = (MPI_SUCCESS, MPIR_ERR_NONE,
         \<lparr> mem = [7], calls = [(Call_Allgather_generic_inter, 0)] \<rparr>)"
proof -
  have z: "zero_size_call zero_recv_args"
    by (simp add: zero_size_call_def zero_recv_args_def sample_args_def)
  have z': "zero_size_call zero_recv_inter_args"
    by (simp add: zero_size_call_def zero_recv_inter_args_def zero_recv_args_def
        sample_args_def)
  have auto: "comm_kind (comm_ptr zero_recv_args) = MPIR_COMM_KIND__INTRACOMM
      \<and> MPIR_Allgather_alg_intra_choice default_cvars = MPIR_ALLGATHER_ALG_INTRA_AUTO"
    by (simp add: zero_recv_args_def sample_args_def default_cvars_def)
  have ring: "calls (snd (snd (MPIR_Allgather sample_macros forced_ring_cvars
        (spec_algorithms writing_externals) zero_recv_args MPIR_ERR_NONE written_world)))
      = [(Call_Allgather_ring, 0)]"
    using z
    by (simp add: MPIR_Allgather_def forced_ring_cvars_def default_cvars_def
        zero_recv_args_def sample_args_def spec_algorithms_def call_coll_def
        zero_size_noop_def written_world_def MPI_SUCCESS_def)
  have inter: "calls (snd (snd (MPIR_Allgather sample_macros default_cvars
        (spec_algorithms writing_externals) zero_recv_inter_args MPIR_ERR_NONE
        written_world)))
      = [(Call_Allgather_generic_inter, 0)]"
    using z'
    by (simp add: MPIR_Allgather_def MPIR_Allgather_inter_def default_cvars_def
        zero_recv_inter_args_def zero_recv_args_def sample_args_def spec_algorithms_def
        call_coll_def zero_size_noop_def written_world_def MPI_SUCCESS_def)
  have mem: "mem written_world = [7]"
    by (simp add: written_world_def)
  from zero_size_call_is_noop [OF z, of sample_macros default_cvars
      "spec_algorithms writing_externals" MPIR_ERR_NONE written_world] auto
  have c1: "MPIR_Allgather sample_macros default_cvars (spec_algorithms writing_externals)
        zero_recv_args MPIR_ERR_NONE written_world
      = (MPI_SUCCESS, MPIR_ERR_NONE, written_world)"
    by blast
  from zero_size_call_is_noop [OF z, of sample_macros forced_ring_cvars
      writing_externals MPIR_ERR_NONE written_world] ring mem
  have c2: "MPIR_Allgather sample_macros forced_ring_cvars (spec_algorithms writing_externals)
        zero_recv_args MPIR_ERR_NONE written_world
      = (MPI_SUCCESS, MPIR_ERR_NONE, \<lparr> mem = [7], calls = [(Call_Allgather_ring, 0)] \<rparr>)"
    by (cases "MPIR_Allgather sample_macros forced_ring_cvars
        (spec_algorithms writing_externals) zero_recv_args MPIR_ERR_NONE written_world")
      (auto intro: world.equality)
  from zero_size_call_is_noop [OF z', of sample_macros default_cvars
      writing_externals MPIR_ERR_NONE written_world] inter mem
  have c3: "MPIR_Allgather sample_macros default_cvars (spec_algorithms writing_externals)
        zero_recv_inter_args MPIR_ERR_NONE written_world
      = (MPI_SUCCESS, MPIR_ERR_NONE,
         \<lparr> mem = [7], calls = [(Call_Allgather_generic_inter, 0)] \<rparr>)"
    by (cases "MPIR_Allgather sample_macros default_cvars
        (spec_algorithms writing_externals) zero_recv_inter_args MPIR_ERR_NONE written_world")
      (auto intro: world.equality)
  from z c1 c2 c3 show ?thesis by (intro conjI)
qed

section \<open>The device switch of the public entry point\<close>

text \<open>
  C7, as amended. For a public call on an initialised library whose arguments pass the
  checks (or in a build without them), the device routine \<^verbatim>\<open>MPID_Allgather\<close> is invoked,
  in place of \<^verbatim>\<open>MPIR_Allgather\<close>, exactly when both
  \<^verbatim>\<open>MPIR_CVAR_ALLGATHER_DEVICE_COLLECTIVE\<close> and the global
  \<^verbatim>\<open>MPIR_CVAR_DEVICE_COLLECTIVES\<close> are enabled; when either is disabled,
  \<^verbatim>\<open>MPIR_Allgather\<close> executes. In both cases the call returns with the memory and the
  log that the routine left.
\<close>

theorem device_preemption:
  assumes "INITIALIZED M"
    and "\<not> HAVE_ERROR_CHECKING M \<or> ERRTEST M a = MPI_SUCCESS"
  shows "(MPIR_CVAR_ALLGATHER_DEVICE_COLLECTIVE C \<and> MPIR_CVAR_DEVICE_COLLECTIVES C \<longrightarrow>
        map_sum id snd (MPI_Allgather M C X a w) =
          Inr (snd (snd (call_coll Call_MPID_Allgather (MPID_Allgather X) a
                 MPIR_ERR_NONE w))))
     \<and> (\<not> (MPIR_CVAR_ALLGATHER_DEVICE_COLLECTIVE C \<and> MPIR_CVAR_DEVICE_COLLECTIVES C) \<longrightarrow>
        map_sum id snd (MPI_Allgather M C X a w) =
          Inr (snd (snd (MPIR_Allgather M C X a MPIR_ERR_NONE w))))"
  using assms
  by (auto simp add: MPI_Allgather_def Let_def split: prod.splits)

text \<open>
  With both switches on the device routine runs; with the all-gather switch off,
  recursive doubling runs through \<^verbatim>\<open>MPIR_Allgather\<close>.
\<close>

theorem device_preemption_witness:
  "map_sum id snd (MPI_Allgather sample_macros default_cvars quiet_externals
        (sample_args 3 8 1024 16) empty_world)
     = Inr \<lparr> mem = (), calls = [(Call_MPID_Allgather, 0)] \<rparr>
   \<and> map_sum id snd (MPI_Allgather sample_macros
        (default_cvars \<lparr> MPIR_CVAR_ALLGATHER_DEVICE_COLLECTIVE := False \<rparr>) quiet_externals
        (sample_args 3 8 1024 16) empty_world)
     = Inr \<lparr> mem = (), calls = [(Call_Allgather_recursive_doubling, 0)] \<rparr>"
proof -
  have init: "INITIALIZED sample_macros"
    by (simp add: sample_macros_def)
  have ok: "\<not> HAVE_ERROR_CHECKING sample_macros
      \<or> ERRTEST sample_macros (sample_args 3 8 1024 16) = MPI_SUCCESS"
    by (simp add: sample_macros_def sample_args_def)
  have run: "MPIR_Allgather sample_macros
        (default_cvars \<lparr> MPIR_CVAR_ALLGATHER_DEVICE_COLLECTIVE := False \<rparr>) quiet_externals
        (sample_args 3 8 1024 16) MPIR_ERR_NONE empty_world
     = (MPI_SUCCESS, MPIR_ERR_NONE,
        \<lparr> mem = (), calls = [(Call_Allgather_recursive_doubling, 0)] \<rparr>)"
    by (simp add: MPIR_Allgather_def MPIR_Allgather_intra_def
      default_cvars_def sample_args_def sample_macros_def
      quiet_externals_def quiet_coll_def call_coll_def empty_world_def MPI_SUCCESS_def
      MPI_Aint_of_def C_int_of_def MPIR_Datatype_get_size_macro_def signed_take_bit_int_eq_self)
  from device_preemption [OF init ok, of default_cvars quiet_externals empty_world]
    device_preemption [OF init ok,
      of "default_cvars \<lparr> MPIR_CVAR_ALLGATHER_DEVICE_COLLECTIVE := False \<rparr>"
      quiet_externals empty_world] run
  show ?thesis
    by (simp add: default_cvars_def quiet_externals_def quiet_coll_def
        call_coll_def empty_world_def MPI_SUCCESS_def)
qed

text \<open>
  The claim as stated fails when the all-gather switch is enabled and the global switch is
  not: the call goes through \<^verbatim>\<open>MPIR_Allgather\<close> to recursive doubling, and the device
  routine is not invoked.
\<close>

theorem device_preemption_counterexample:
  "MPIR_CVAR_ALLGATHER_DEVICE_COLLECTIVE device_switch_off_cvars
   \<and> MPI_Allgather sample_macros device_switch_off_cvars quiet_externals
        (sample_args 3 8 1024 16) empty_world
      = Inr (MPI_SUCCESS, \<lparr> mem = (), calls = [(Call_Allgather_recursive_doubling, 0)] \<rparr>)"
  by (simp add: MPI_Allgather_def MPIR_Allgather_def MPIR_Allgather_intra_def
      device_switch_off_cvars_def default_cvars_def sample_args_def sample_macros_def
      quiet_externals_def quiet_coll_def call_coll_def empty_world_def MPI_SUCCESS_def
      MPI_Aint_of_def C_int_of_def MPIR_Datatype_get_size_macro_def signed_take_bit_int_eq_self)

section \<open>The blocking neighbor all-gather\<close>

lemma call_start_split:
  "call_start f a w =
     (fst (f a (mem w)), fst (snd (f a (mem w))),
      \<lparr> mem = snd (snd (f a (mem w))),
        calls = calls w @ [(Call_MPID_Ineighbor_allgather, fst (f a (mem w)))] \<rparr>)"
  by (simp add: call_start_def split: prod.splits)

lemma call_wait_split:
  "call_wait f req w =
     (fst (f req (mem w)),
      \<lparr> mem = snd (f req (mem w)), calls = calls w @ [(Call_Wait_impl, fst (f req (mem w)))] \<rparr>)"
  by (simp add: call_wait_def split: prod.splits)

text \<open>
  C8. For every argument list, state and behaviour of the two external routines, the
  blocking neighbor all-gather leaves the memory and the log that the composition
  \<open>start_then_wait\<close> leaves, and returns success exactly when the composition does; an
  error code of the composition is returned as \<^verbatim>\<open>MPIR_ERR_POP\<close> leaves it. The only
  routines it invokes are the non-blocking start and the wait.
\<close>

theorem neighbor_allgather_is_start_then_wait:
  "MPIR_Neighbor_allgather_nb M X a w =
     (if fst (start_then_wait X a w) \<noteq> MPI_SUCCESS
      then MPIR_ERR_POP M (fst (start_then_wait X a w))
      else MPI_SUCCESS,
      snd (start_then_wait X a w))
   \<and> set (invoked w (snd (MPIR_Neighbor_allgather_nb M X a w)))
       \<subseteq> {Call_MPID_Ineighbor_allgather, Call_Wait_impl}"
  by (simp add: MPIR_Neighbor_allgather_nb_def start_then_wait_def and_then_def
      call_start_split call_wait_split MPI_SUCCESS_def invoked_def)

theorem neighbor_allgather_is_start_then_wait_witness:
  "MPIR_Neighbor_allgather_nb sample_macros quiet_externals (sample_args 1 4 10 4) empty_world
     = (MPI_SUCCESS,
        \<lparr> mem = (), calls = [(Call_MPID_Ineighbor_allgather, 0), (Call_Wait_impl, 0)] \<rparr>)"
  using neighbor_allgather_is_start_then_wait
    [of sample_macros quiet_externals "sample_args 1 4 10 4" empty_world]
  by (simp add: start_then_wait_def and_then_def call_start_split call_wait_split
      quiet_externals_def empty_world_def MPI_SUCCESS_def)

text \<open>
  C10. When the non-blocking start returns an error code, the blocking neighbor all-gather
  returns that code, as \<^verbatim>\<open>MPIR_ERR_POP\<close> leaves it, with the state the start left, and
  the start is the only routine it invoked. The wait is among the invoked routines only
  when the start returned success.
\<close>

theorem start_error_skips_wait:
  "(fst (MPID_Ineighbor_allgather X a (mem w)) \<noteq> 0 \<longrightarrow>
      MPIR_Neighbor_allgather_nb M X a w =
        (MPIR_ERR_POP M (fst (MPID_Ineighbor_allgather X a (mem w))),
         snd (snd (call_start (MPID_Ineighbor_allgather X) a w)))
      \<and> invoked w (snd (MPIR_Neighbor_allgather_nb M X a w)) = [Call_MPID_Ineighbor_allgather])
   \<and> (Call_Wait_impl \<in> set (invoked w (snd (MPIR_Neighbor_allgather_nb M X a w))) \<longrightarrow>
      fst (MPID_Ineighbor_allgather X a (mem w)) = 0)"
  by (simp add: MPIR_Neighbor_allgather_nb_def call_start_split call_wait_split invoked_def)

theorem start_error_skips_wait_witness:
  "MPIR_Neighbor_allgather_nb sample_macros failing_start_externals (sample_args 1 4 10 4)
       empty_world
     = (34, \<lparr> mem = (), calls = [(Call_MPID_Ineighbor_allgather, 34)] \<rparr>)
   \<and> Call_Wait_impl \<in> set (invoked empty_world
        (snd (MPIR_Neighbor_allgather_nb sample_macros quiet_externals (sample_args 1 4 10 4)
           empty_world)))"
proof -
  have "Call_Wait_impl \<in> set (invoked empty_world
        (snd (MPIR_Neighbor_allgather_nb sample_macros quiet_externals (sample_args 1 4 10 4)
           empty_world)))"
    by (simp add: MPIR_Neighbor_allgather_nb_def call_start_split call_wait_split invoked_def
        quiet_externals_def empty_world_def MPI_SUCCESS_def)
  then show ?thesis
    using start_error_skips_wait
      [of failing_start_externals "sample_args 1 4 10 4" empty_world sample_macros]
      start_error_skips_wait
      [of quiet_externals "sample_args 1 4 10 4" empty_world sample_macros]
    by (simp add: failing_start_externals_def quiet_externals_def call_start_split
        empty_world_def sample_macros_def)
qed

section \<open>The ring schedule\<close>

subsection \<open>The emitters and one turn of the loop\<close>

lemma smod_nonneg: "0 \<le> a \<Longrightarrow> 0 < b \<Longrightarrow> a smod b = a mod (b::int)"
  by (cases "a = 0") (simp_all add: smod_int_alt_def)

lemma sched_add_cases:
  "sched_add F e s = (if F e s \<noteq> 0 then (F e s, s) else (0, s @ [e]))"
  by (simp add: sched_add_def MPI_SUCCESS_def)

lemma barrier_cases:
  "MPIR_SCHED_BARRIER M F s =
     (if F Sched_barrier s \<noteq> 0 then Inl (MPIR_ERR_POP M (F Sched_barrier s), s)
      else Inr (s @ [Sched_barrier]))"
  by (simp add: MPIR_SCHED_BARRIER_def MPIR_Sched_barrier_def sched_add_cases)

lemma ring_loop_done:
  "\<not> i < local_size (comm_ptr a) \<Longrightarrow> ring_loop M F a left right i j jnext s = (0, s)"
  by (subst ring_loop.simps) (simp add: MPI_SUCCESS_def)

text \<open>
  A loop that ends with success has recorded the send, the receive and the barrier of the
  current turn and gone on from there.
\<close>

lemma ring_loop_step:
  assumes "i < local_size (comm_ptr a)"
    and "pop_keeps_errors M"
    and "ring_loop M F a left right i j jnext s = (0, s')"
  shows "ring_loop M F a left right (i + 1) jnext
           ((local_size (comm_ptr a) + jnext - 1) smod local_size (comm_ptr a))
           (s @ [Sched_send (block_addr a j) (recvcount a) (recvtype a) right,
                 Sched_recv (block_addr a jnext) (recvcount a) (recvtype a) left,
                 Sched_barrier]) = (0, s')"
proof -
  have pop: "\<And>e. e \<noteq> 0 \<Longrightarrow> MPIR_ERR_POP M e \<noteq> 0"
    using assms(2) by (simp add: pop_keeps_errors_def)
  from assms(3) show ?thesis
    apply (subst (asm) ring_loop.simps)
    using assms(1) pop
    apply (simp add: Let_def MPIR_Sched_send_def MPIR_Sched_recv_def sched_add_cases
        barrier_cases block_addr_def MPIR_Datatype_get_extent_macro_def
        split: if_splits)
    done
qed

lemma ring_next_offset:
  fixes n :: int
  assumes "0 < n"
  shows "(n + (rk - i) mod n - 1) smod n = (rk - (i + 1)) mod n"
proof -
  have "0 \<le> (rk - i) mod n" using assms by simp
  with assms have "0 \<le> n + (rk - i) mod n - 1" by linarith
  then have "(n + (rk - i) mod n - 1) smod n = (n + (rk - i) mod n - 1) mod n"
    using assms by (rule smod_nonneg)
  also have "\<dots> = ((rk - i) mod n - 1) mod n"
    by (metis add.commute add_diff_eq mod_add_self2)
  also have "\<dots> = (rk - i - 1) mod n"
    by (simp add: mod_diff_left_eq)
  finally show ?thesis by (simp add: algebra_simps)
qed

subsection \<open>The schedule of a successful build\<close>

text \<open>
  At the test of turn \<open>i\<close> the loop holds \<open>j = (rank - i + 1) mod size\<close> and
  \<open>jnext = (rank - i) mod size\<close>; from there it records the turns \<open>i\<close> to
  \<open>size - 1\<close>.
\<close>

lemma ring_loop_schedule:
  assumes "pop_keeps_errors M"
    and "0 < local_size (comm_ptr a)"
    and "j = (rank (comm_ptr a) - i + 1) mod local_size (comm_ptr a)"
    and "jnext = (rank (comm_ptr a) - i) mod local_size (comm_ptr a)"
    and "left = (rank (comm_ptr a) - 1 + local_size (comm_ptr a)) mod local_size (comm_ptr a)"
    and "right = (rank (comm_ptr a) + 1) mod local_size (comm_ptr a)"
    and "ring_loop M F a left right i j jnext s = (0, s')"
  shows "s' = s @ concat (map (\<lambda>k. [ring_send a k, ring_recv a k, Sched_barrier])
                       [i..local_size (comm_ptr a) - 1])"
  using assms(3,4,7)
proof (induction "nat (local_size (comm_ptr a) - i)" arbitrary: i j jnext s)
  case 0
  then have "\<not> i < local_size (comm_ptr a)" by simp
  with 0 show ?case by (simp add: ring_loop_done)
next
  case (Suc d)
  let ?n = "local_size (comm_ptr a)"
  from Suc.hyps(2) have lt: "i < ?n" by simp
  let ?step = "[Sched_send (block_addr a j) (recvcount a) (recvtype a) right,
                Sched_recv (block_addr a jnext) (recvcount a) (recvtype a) left,
                Sched_barrier]"
  have next_run: "ring_loop M F a left right (i + 1) jnext ((?n + jnext - 1) smod ?n)
      (s @ ?step) = (0, s')"
    using lt assms(1) Suc.prems(3) by (rule ring_loop_step)
  have d: "d = nat (?n - (i + 1))" using Suc.hyps(2) by simp
  have j': "jnext = (rank (comm_ptr a) - (i + 1) + 1) mod ?n"
    using Suc.prems(2) by simp
  have jn': "(?n + jnext - 1) smod ?n = (rank (comm_ptr a) - (i + 1)) mod ?n"
    unfolding Suc.prems(2) using assms(2) by (rule ring_next_offset)
  have "s' = (s @ ?step) @ concat (map (\<lambda>k. [ring_send a k, ring_recv a k, Sched_barrier])
                       [i + 1..?n - 1])"
    using Suc.hyps(1) [OF d j' jn' next_run] .
  moreover have "?step = [ring_send a i, ring_recv a i, Sched_barrier]"
    by (simp add: ring_send_def ring_recv_def Suc.prems(1,2) assms(5,6))
  moreover have "[i..?n - 1] = i # [i + 1..?n - 1]"
    using lt by (simp add: upto_rec1)
  ultimately show ?case by simp
qed

lemma ring_loop_never_refused:
  assumes "\<forall>e s. F e s = 0"
  shows "fst (ring_loop M F a left right i j jnext s) = 0"
proof (induction "nat (local_size (comm_ptr a) - i)" arbitrary: i j jnext s)
  case 0
  then have "\<not> i < local_size (comm_ptr a)" by simp
  then show ?case by (simp add: ring_loop_done)
next
  case (Suc d)
  from Suc.hyps(2) have lt: "i < local_size (comm_ptr a)" by simp
  have d: "d = nat (local_size (comm_ptr a) - (i + 1))" using Suc.hyps(2) by simp
  show ?case
    apply (subst ring_loop.simps)
    using lt assms Suc.hyps(1) [OF d]
    apply (simp add: Let_def MPIR_Sched_send_def MPIR_Sched_recv_def sched_add_cases
        barrier_cases)
    done
qed

lemma ring_sched_after_prologue:
  assumes "pop_keeps_errors M"
    and "MPIR_Iallgather_ring_sched M F a s = Inr (MPI_SUCCESS, s')"
  shows "ring_exchange M F a (s @ ring_prologue a) = Inr (0, s')"
proof -
  have pop: "\<And>e. e \<noteq> 0 \<Longrightarrow> MPIR_ERR_POP M e \<noteq> 0"
    using assms(1) by (simp add: pop_keeps_errors_def)
  show ?thesis
  proof (cases "sendbuf a")
    case MPI_IN_PLACE
    with assms(2) show ?thesis
      by (simp add: MPIR_Iallgather_ring_sched_def Let_def ring_prologue_def MPI_SUCCESS_def
          split: if_splits)
  next
    case (Address p)
    with assms(2) pop show ?thesis
      by (simp add: MPIR_Iallgather_ring_sched_def Let_def ring_prologue_def ring_copy_def
          block_addr_def MPIR_Sched_copy_def sched_add_cases barrier_cases
          MPIR_Datatype_get_extent_macro_def MPI_SUCCESS_def split: if_splits)
  qed
qed

lemma ring_sched_schedule:
  assumes "pop_keeps_errors M"
    and "0 \<le> rank (comm_ptr a)" and "rank (comm_ptr a) < local_size (comm_ptr a)"
    and "MPIR_Iallgather_ring_sched M F a s = Inr (MPI_SUCCESS, s')"
  shows "s' = s @ ring_prologue a
            @ concat (map (\<lambda>k. [ring_send a k, ring_recv a k, Sched_barrier])
                       [1..local_size (comm_ptr a) - 1])"
proof -
  let ?n = "local_size (comm_ptr a)"
  let ?rk = "rank (comm_ptr a)"
  have npos: "0 < ?n" using assms(2,3) by simp
  have "ring_exchange M F a (s @ ring_prologue a) = Inr (0, s')"
    using assms(1,4) by (rule ring_sched_after_prologue)
  then have loop: "ring_loop M F a ((?n + ?rk - 1) smod ?n) ((?rk + 1) smod ?n) 1 ?rk
      ((?n + ?rk - 1) smod ?n) (s @ ring_prologue a) = (0, s')"
    using npos by (simp add: ring_exchange_def Let_def)
  have left: "(?n + ?rk - 1) smod ?n = (?rk - 1 + ?n) mod ?n"
    using assms(2) npos by (subst smod_nonneg) (simp_all add: algebra_simps)
  have right: "(?rk + 1) smod ?n = (?rk + 1) mod ?n"
    using assms(2) npos by (subst smod_nonneg) simp_all
  have j: "?rk = (?rk - 1 + 1) mod ?n"
    using assms(2,3) by simp
  have jn: "(?n + ?rk - 1) smod ?n = (?rk - 1) mod ?n"
    unfolding left by simp
  have "s' = (s @ ring_prologue a)
      @ concat (map (\<lambda>k. [ring_send a k, ring_recv a k, Sched_barrier]) [1..?n - 1])"
    using assms(1) npos j jn left right loop by (rule ring_loop_schedule)
  then show ?thesis by simp
qed

text \<open>
  The build succeeds when no emitter refuses a step, the assertion of line 28 holds and the
  group is not empty.
\<close>

lemma ring_sched_builds:
  assumes "\<forall>e s. F e s = 0"
    and "Aint_fits_in_pointer M
           (MPI_Aint_of (recvbuf a
              + MPI_Aint_of (C_int_of (local_size (comm_ptr a) * recvcount a)
                  * type_extent (recvtype a))))"
    and "local_size (comm_ptr a) \<noteq> 0"
  shows "\<exists>s'. MPIR_Iallgather_ring_sched M F a s = Inr (MPI_SUCCESS, s')"
proof -
  have "\<And>l r i j jn t. \<exists>s'. ring_loop M F a l r i j jn t = (0, s')"
    using ring_loop_never_refused [OF assms(1)] by (metis prod.collapse)
  then have "\<And>t. \<exists>s'. ring_exchange M F a t = Inr (0, s')"
    using assms(3) by (simp add: ring_exchange_def Let_def)
  then show ?thesis
    using assms
    by (cases "sendbuf a")
      (simp_all add: MPIR_Iallgather_ring_sched_def Let_def MPI_SUCCESS_def
        MPIR_Sched_copy_def sched_add_cases barrier_cases MPIR_Datatype_get_extent_macro_def)
qed

text \<open>
  As long as the offsets stay in range, the address the builder computes for a block of
  the group is the address at which the block starts.
\<close>

lemma between_zero_and_bound:
  fixes b n c lo hi :: int
  assumes "0 \<le> b" and "b \<le> n" and "lo \<le> 0" and "0 < hi"
    and "lo \<le> n * c" and "n * c < hi"
  shows "lo \<le> b * c \<and> b * c < hi"
proof (cases "0 \<le> c")
  case True
  then have "0 \<le> b * c" and "b * c \<le> n * c"
    using assms(1,2) by (simp_all add: mult_right_mono)
  with assms(3,6) show ?thesis by linarith
next
  case False
  then have "b * c \<le> 0" and "n * c \<le> b * c"
    using assms(1,2) by (simp_all add: mult_nonneg_nonpos mult_right_mono_neg)
  with assms(4,5) show ?thesis by linarith
qed

lemma block_addr_exact:
  assumes "offsets_in_range a" and "0 \<le> b" and "b \<le> local_size (comm_ptr a)"
  shows "block_addr a b = block_start a b"
proof -
  let ?n = "local_size (comm_ptr a)"
  have "- (2 ^ 31) \<le> b * recvcount a \<and> b * recvcount a < 2 ^ 31"
    using assms by (intro between_zero_and_bound [of b ?n]) (simp_all add: offsets_in_range_def)
  then have narrow: "C_int_of (b * recvcount a) = b * recvcount a"
    by (simp add: C_int_of_id)
  have "- (2 ^ 63) \<le> b * (recvcount a * type_extent (recvtype a))
      \<and> b * (recvcount a * type_extent (recvtype a)) < 2 ^ 63"
    using assms
    by (intro between_zero_and_bound [of b ?n])
      (simp_all add: offsets_in_range_def mult.assoc)
  then have "MPI_Aint_of (b * recvcount a * type_extent (recvtype a))
      = b * recvcount a * type_extent (recvtype a)"
    by (simp add: MPI_Aint_of_id mult.assoc)
  then show ?thesis
    by (simp add: block_addr_def block_start_def narrow)
qed

subsection \<open>The blocks the ring visits\<close>

lemma ring_block_not_own:
  fixes n :: int
  assumes "1 \<le> i" and "i < n"
  shows "(rk - i) mod n \<noteq> rk mod n"
proof
  assume "(rk - i) mod n = rk mod n"
  then have "n dvd (rk - i) - rk" by (simp only: mod_eq_dvd_iff)
  then have "n dvd i" by simp
  with assms show False by (simp add: zdvd_not_zless)
qed

lemma ring_blocks_inj:
  fixes n :: int
  assumes "1 \<le> i" and "i < n" and "1 \<le> k" and "k < n"
    and "(rk - i) mod n = (rk - k) mod n"
  shows "i = k"
proof (rule ccontr)
  assume ne: "i \<noteq> k"
  from assms(5) have "n dvd (rk - i) - (rk - k)" by (simp only: mod_eq_dvd_iff)
  then have d: "n dvd k - i" by simp
  then have d': "n dvd i - k" by (metis dvd_minus_iff minus_diff_eq)
  show False
  proof (cases "i < k")
    case True
    with assms have "0 < k - i" and "k - i < n" by simp_all
    with d show False by (simp add: zdvd_not_zless)
  next
    case False
    with ne assms have "0 < i - k" and "i - k < n" by simp_all
    with d' show False by (simp add: zdvd_not_zless)
  qed
qed

lemma ring_blocks_distinct:
  fixes n :: int
  shows "distinct (map (\<lambda>i. (rk - i) mod n) [1..n - 1])"
  by (auto simp add: distinct_map inj_on_def intro: ring_blocks_inj)

lemma ring_blocks_set:
  fixes n :: int
  assumes "0 \<le> rk" and "rk < n"
  shows "set (map (\<lambda>i. (rk - i) mod n) [1..n - 1]) = {0..n - 1} - {rk}"
proof (intro equalityI subsetI)
  fix b assume "b \<in> set (map (\<lambda>i. (rk - i) mod n) [1..n - 1])"
  then obtain i where i: "1 \<le> i" "i < n" and b: "b = (rk - i) mod n" by auto
  from assms have npos: "0 < n" by simp
  have "b \<noteq> rk mod n" unfolding b using i by (rule ring_block_not_own)
  moreover have "rk mod n = rk" using assms by simp
  moreover have "0 \<le> b" "b < n" unfolding b using npos by simp_all
  ultimately show "b \<in> {0..n - 1} - {rk}" by simp
next
  fix b assume "b \<in> {0..n - 1} - {rk}"
  then have b: "0 \<le> b" "b < n" "b \<noteq> rk" by simp_all
  from assms have npos: "0 < n" by simp
  let ?i = "(rk - b) mod n"
  have "?i \<noteq> 0"
  proof
    assume "?i = 0"
    then have "n dvd rk - b" by (simp add: dvd_eq_mod_eq_0)
    then have "rk mod n = b mod n" by (simp only: mod_eq_dvd_iff)
    with assms b show False by simp
  qed
  moreover have "0 \<le> ?i" "?i < n" using npos by simp_all
  ultimately have r: "1 \<le> ?i" "?i \<le> n - 1" by simp_all
  have "(rk - ?i) mod n = (rk - (rk - b)) mod n"
    by (simp add: mod_diff_right_eq)
  also have "\<dots> = b" using b by simp
  finally have "b = (rk - ?i) mod n" by simp
  with r show "b \<in> set (map (\<lambda>i. (rk - i) mod n) [1..n - 1])"
    by (auto simp add: image_iff intro!: bexI [of _ ?i])
qed

lemma recv_bufs_append: "recv_bufs (xs @ ys) = recv_bufs xs @ recv_bufs ys"
  by (induction xs rule: recv_bufs.induct) simp_all

lemma recv_bufs_prologue: "recv_bufs (ring_prologue a) = []"
  by (simp add: ring_prologue_def ring_copy_def split: sendbuf_t.splits)

lemma recv_bufs_steps:
  "recv_bufs (concat (map (\<lambda>k. [ring_send a k, ring_recv a k, Sched_barrier]) ks)) =
     map (\<lambda>i. block_addr a ((rank (comm_ptr a) - i) mod local_size (comm_ptr a))) ks"
  by (induction ks) (simp_all add: ring_send_def ring_recv_def)

lemma comm_prologue: "filter is_comm (ring_prologue a) = []"
  by (simp add: ring_prologue_def ring_copy_def split: sendbuf_t.splits)

lemma comm_steps:
  "filter is_comm (concat (map (\<lambda>k. [ring_send a k, ring_recv a k, Sched_barrier]) ks)) =
     concat (map (\<lambda>k. [ring_send a k, ring_recv a k]) ks)"
  by (induction ks) (simp_all add: ring_send_def ring_recv_def)

lemma sample_pop: "pop_keeps_errors sample_macros"
  by (simp add: pop_keeps_errors_def sample_macros_def)

lemma ring5_run:
  "MPIR_Iallgather_ring_sched sample_macros never_refuses (sample_args 2 5 10 4) []
     = Inr (MPI_SUCCESS, ring5_schedule)"
  by code_simp

lemma ring5_in_place_run:
  "MPIR_Iallgather_ring_sched sample_macros never_refuses in_place_args []
     = Inr (MPI_SUCCESS, ring5_steps)"
  by code_simp

text \<open>
  With 2 to the 30 elements per block the \<^verbatim>\<open>int\<close> products wrap: rank 0 of 5 receives
  block 4 at the start of the receive buffer, where its own block is, and the blocks 3 and
  2 before it.
\<close>

lemma ring_int_products_wrap:
  "MPIR_Iallgather_ring_sched sample_macros never_refuses huge_in_place_args []
     = Inr (MPI_SUCCESS,
        [Sched_send 65536 1073741824 int32 1, Sched_recv 65536 1073741824 int32 4,
         Sched_barrier,
         Sched_send 65536 1073741824 int32 1, Sched_recv (- 4294901760) 1073741824 int32 4,
         Sched_barrier,
         Sched_send (- 4294901760) 1073741824 int32 1,
         Sched_recv (- 8589869056) 1073741824 int32 4,
         Sched_barrier,
         Sched_send (- 8589869056) 1073741824 int32 1,
         Sched_recv 4295032832 1073741824 int32 4,
         Sched_barrier])"
  by code_simp

lemma comm_steps_exact:
  assumes "offsets_in_range a" and "0 < local_size (comm_ptr a)"
  shows
    "concat (map (\<lambda>k. [ring_send a k, ring_recv a k]) ks) =
     concat (map (\<lambda>i.
           [Sched_send
              (block_start a ((rank (comm_ptr a) - i + 1) mod local_size (comm_ptr a)))
              (recvcount a) (recvtype a)
              ((rank (comm_ptr a) + 1) mod local_size (comm_ptr a)),
            Sched_recv
              (block_start a ((rank (comm_ptr a) - i) mod local_size (comm_ptr a)))
              (recvcount a) (recvtype a)
              ((rank (comm_ptr a) - 1 + local_size (comm_ptr a)) mod local_size (comm_ptr a))])
           ks)"
proof -
  have "block_addr a (x mod local_size (comm_ptr a))
      = block_start a (x mod local_size (comm_ptr a))" for x
    using assms by (intro block_addr_exact) (simp_all add: less_imp_le)
  then show ?thesis
    by (simp add: ring_send_def ring_recv_def)
qed

text \<open>
  C2. For a group with \<open>0 \<le> rank < size\<close> (so every size from 1 on, and in particular
  every size from 2 on), a build that returns success keeps the steps recorded before and
  adds, as its sends and receives in order, exactly \<open>size - 1\<close> pairs: at step \<open>i\<close>,
  counted from 1, a send of the block of index \<open>(rank - i + 1) mod size\<close> to
  \<open>(rank + 1) mod size\<close> and then a receive into the block of index
  \<open>(rank - i) mod size\<close> from \<open>(rank - 1 + size) mod size\<close>. The indices received
  into, in order, are pairwise distinct and are exactly the indices \<open>0\<close> to
  \<open>size - 1\<close> other than \<open>rank\<close>. The buffer of each step is the address the builder
  computes from the index; as long as the offsets stay in range, it is the address at which
  that block of the receive buffer starts.
\<close>

theorem ring_communication_steps:
  assumes "pop_keeps_errors M"
    and "0 \<le> rank (comm_ptr a)" and "rank (comm_ptr a) < local_size (comm_ptr a)"
    and "MPIR_Iallgather_ring_sched M F a s = Inr (MPI_SUCCESS, s')"
  shows "take (length s) s' = s
     \<and> filter is_comm (drop (length s) s') =
         concat (map (\<lambda>i.
           [Sched_send
              (block_addr a ((rank (comm_ptr a) - i + 1) mod local_size (comm_ptr a)))
              (recvcount a) (recvtype a)
              ((rank (comm_ptr a) + 1) mod local_size (comm_ptr a)),
            Sched_recv
              (block_addr a ((rank (comm_ptr a) - i) mod local_size (comm_ptr a)))
              (recvcount a) (recvtype a)
              ((rank (comm_ptr a) - 1 + local_size (comm_ptr a)) mod local_size (comm_ptr a))])
           [1..local_size (comm_ptr a) - 1])
     \<and> length (filter is_comm (drop (length s) s')) = 2 * nat (local_size (comm_ptr a) - 1)
     \<and> (\<exists>bs. recv_bufs (drop (length s) s') = map (block_addr a) bs
            \<and> bs = map (\<lambda>i. (rank (comm_ptr a) - i) mod local_size (comm_ptr a))
                     [1..local_size (comm_ptr a) - 1]
            \<and> distinct bs
            \<and> set bs = {0..local_size (comm_ptr a) - 1} - {rank (comm_ptr a)})
     \<and> (offsets_in_range a \<longrightarrow>
          filter is_comm (drop (length s) s') =
            concat (map (\<lambda>i.
              [Sched_send
                 (block_start a ((rank (comm_ptr a) - i + 1) mod local_size (comm_ptr a)))
                 (recvcount a) (recvtype a)
                 ((rank (comm_ptr a) + 1) mod local_size (comm_ptr a)),
               Sched_recv
                 (block_start a ((rank (comm_ptr a) - i) mod local_size (comm_ptr a)))
                 (recvcount a) (recvtype a)
                 ((rank (comm_ptr a) - 1 + local_size (comm_ptr a))
                    mod local_size (comm_ptr a))])
              [1..local_size (comm_ptr a) - 1])
          \<and> recv_bufs (drop (length s) s') =
              map (\<lambda>i. block_start a ((rank (comm_ptr a) - i) mod local_size (comm_ptr a)))
                [1..local_size (comm_ptr a) - 1])"
proof -
  let ?n = "local_size (comm_ptr a)"
  let ?rk = "rank (comm_ptr a)"
  let ?steps = "concat (map (\<lambda>k. [ring_send a k, ring_recv a k, Sched_barrier]) [1..?n - 1])"
  have npos: "0 < ?n" using assms(2,3) by simp
  have s': "s' = s @ ring_prologue a @ ?steps"
    using assms by (rule ring_sched_schedule)
  have new: "drop (length s) s' = ring_prologue a @ ?steps"
    unfolding s' by simp
  have old: "take (length s) s' = s"
    unfolding s' by simp
  have comm: "filter is_comm (drop (length s) s') =
      concat (map (\<lambda>k. [ring_send a k, ring_recv a k]) [1..?n - 1])"
    unfolding new by (simp only: filter_append comm_prologue comm_steps append_Nil)
  have len: "length (concat (map (\<lambda>k. [ring_send a k, ring_recv a k]) ks)) = 2 * length ks"
    for ks by (induction ks) simp_all
  have recv: "recv_bufs (drop (length s) s') =
      map (block_addr a) (map (\<lambda>i. (?rk - i) mod ?n) [1..?n - 1])"
    unfolding new by (simp add: recv_bufs_append recv_bufs_prologue recv_bufs_steps)
  have exact: "block_addr a (x mod ?n) = block_start a (x mod ?n)"
    if "offsets_in_range a" for x
    using that npos by (intro block_addr_exact) (simp_all add: less_imp_le)
  show ?thesis
  proof (intro conjI impI)
    show "take (length s) s' = s" by (rule old)
    show "filter is_comm (drop (length s) s') =
         concat (map (\<lambda>i.
           [Sched_send (block_addr a ((?rk - i + 1) mod ?n)) (recvcount a) (recvtype a)
              ((?rk + 1) mod ?n),
            Sched_recv (block_addr a ((?rk - i) mod ?n)) (recvcount a) (recvtype a)
              ((?rk - 1 + ?n) mod ?n)])
           [1..?n - 1])"
      unfolding comm by (simp add: ring_send_def ring_recv_def)
    show "length (filter is_comm (drop (length s) s')) = 2 * nat (?n - 1)"
      unfolding comm len by simp
    show "\<exists>bs. recv_bufs (drop (length s) s') = map (block_addr a) bs
            \<and> bs = map (\<lambda>i. (?rk - i) mod ?n) [1..?n - 1]
            \<and> distinct bs
            \<and> set bs = {0..?n - 1} - {?rk}"
      using recv ring_blocks_distinct [of ?rk ?n] ring_blocks_set [OF assms(2,3)]
      by blast
  next
    assume r: "offsets_in_range a"
    show "filter is_comm (drop (length s) s') =
            concat (map (\<lambda>i.
              [Sched_send (block_start a ((?rk - i + 1) mod ?n)) (recvcount a) (recvtype a)
                 ((?rk + 1) mod ?n),
               Sched_recv (block_start a ((?rk - i) mod ?n)) (recvcount a) (recvtype a)
                 ((?rk - 1 + ?n) mod ?n)])
              [1..?n - 1])"
      unfolding comm using r npos by (rule comm_steps_exact)
  next
    assume r: "offsets_in_range a"
    show "recv_bufs (drop (length s) s') =
        map (\<lambda>i. block_start a ((?rk - i) mod ?n)) [1..?n - 1]"
      unfolding recv by (simp add: exact [OF r])
  qed
qed

text \<open>Rank 2 of 5: four pairs, received into blocks 1, 0, 4 and 3.\<close>

theorem ring_communication_steps_witness:
  "MPIR_Iallgather_ring_sched sample_macros never_refuses (sample_args 2 5 10 4) []
     = Inr (MPI_SUCCESS, ring5_schedule)
   \<and> offsets_in_range (sample_args 2 5 10 4)
   \<and> length (filter is_comm ring5_schedule) = 8
   \<and> recv_bufs ring5_schedule = map (block_start (sample_args 2 5 10 4)) [1, 0, 4, 3]"
proof -
  have rk: "0 \<le> rank (comm_ptr (sample_args 2 5 10 4))"
    "rank (comm_ptr (sample_args 2 5 10 4)) < local_size (comm_ptr (sample_args 2 5 10 4))"
    by (simp_all add: sample_args_def)
  have r: "offsets_in_range (sample_args 2 5 10 4)"
    by (simp add: offsets_in_range_def sample_args_def)
  have up: "[1..(4::int)] = [1, 2, 3, 4]" by code_simp
  note t = ring_communication_steps [OF sample_pop rk ring5_run]
  have "length (filter is_comm (drop (length ([] :: sched_entry list)) ring5_schedule))
      = 2 * nat (local_size (comm_ptr (sample_args 2 5 10 4)) - 1)"
    using t by (elim conjE)
  then have len: "length (filter is_comm ring5_schedule) = 8"
    by (simp add: sample_args_def)
  have "recv_bufs (drop (length ([] :: sched_entry list)) ring5_schedule) =
      map (\<lambda>i. block_start (sample_args 2 5 10 4)
                 ((rank (comm_ptr (sample_args 2 5 10 4)) - i)
                    mod local_size (comm_ptr (sample_args 2 5 10 4))))
        [1..local_size (comm_ptr (sample_args 2 5 10 4)) - 1]"
    using t r by (elim conjE) simp
  also have "local_size (comm_ptr (sample_args 2 5 10 4)) = 5"
    by (simp add: sample_args_def)
  also have "rank (comm_ptr (sample_args 2 5 10 4)) = 2"
    by (simp add: sample_args_def)
  finally have recv: "recv_bufs ring5_schedule =
      map (block_start (sample_args 2 5 10 4)) [1, 0, 4, 3]"
    by (simp add: up)
  from ring5_run r len recv show ?thesis by (intro conjI)
qed

subsection \<open>The caller's own block\<close>







subsection \<open>Barriers\<close>

lemma phases_from_run:
  assumes "Sched_barrier \<notin> set p"
  shows "phases_from cur (p @ Sched_barrier # rest) = (cur @ p) # phases_from [] rest"
  using assms
proof (induction p arbitrary: cur)
  case Nil
  show ?case by simp
next
  case (Cons e p)
  then have "e \<noteq> Sched_barrier" and "Sched_barrier \<notin> set p" by auto
  then show ?case using Cons.IH [of "cur @ [e]"] by (cases e) simp_all
qed

lemma phases_of_runs:
  assumes "\<forall>p \<in> set ps. Sched_barrier \<notin> set p"
  shows "phases (concat (map (\<lambda>p. p @ [Sched_barrier]) ps)) = ps"
  using assms
proof (induction ps)
  case Nil
  show ?case by (simp add: phases_def)
next
  case (Cons p ps)
  then have "Sched_barrier \<notin> set p" by simp
  from phases_from_run [OF this, of "[]" "concat (map (\<lambda>p. p @ [Sched_barrier]) ps)"]
  show ?case using Cons by (simp add: phases_def)
qed

lemma ring_schedule_runs:
  "ring_prologue a
     @ concat (map (\<lambda>k. [ring_send a k, ring_recv a k, Sched_barrier]) ks)
   = concat (map (\<lambda>p. p @ [Sched_barrier])
       ((case sendbuf a of MPI_IN_PLACE \<Rightarrow> [] | Address p \<Rightarrow> [[ring_copy a p]])
        @ map (\<lambda>i. [ring_send a i, ring_recv a i]) ks))"
proof -
  have "concat (map (\<lambda>k. [ring_send a k, ring_recv a k, Sched_barrier]) ks)
      = concat (map (\<lambda>p. p @ [Sched_barrier]) (map (\<lambda>i. [ring_send a i, ring_recv a i]) ks))"
    by (induction ks) simp_all
  then show ?thesis
    by (simp add: ring_prologue_def split: sendbuf_t.splits)
qed

text \<open>
  C5. The steps added by a successful build on a group with \<open>0 \<le> rank < size\<close> are the
  phases of \<open>ring_phases\<close>, each followed by one barrier, and no phase holds a barrier:
  the send and the receive of a step share a phase with no barrier between them, a barrier
  follows each pair and so precedes the send of the next step, and the local copy of a call
  that is not in place is a phase of its own, closed by a barrier before the first send.
\<close>

theorem ring_barriers:
  assumes "pop_keeps_errors M"
    and "0 \<le> rank (comm_ptr a)" and "rank (comm_ptr a) < local_size (comm_ptr a)"
    and "MPIR_Iallgather_ring_sched M F a s = Inr (MPI_SUCCESS, s')"
  shows "drop (length s) s' = concat (map (\<lambda>p. p @ [Sched_barrier]) (ring_phases a))
     \<and> phases (drop (length s) s') = ring_phases a
     \<and> (\<forall>p \<in> set (ring_phases a). Sched_barrier \<notin> set p)"
proof -
  let ?n = "local_size (comm_ptr a)"
  let ?steps = "concat (map (\<lambda>k. [ring_send a k, ring_recv a k, Sched_barrier]) [1..?n - 1])"
  have s': "s' = s @ ring_prologue a @ ?steps"
    using assms by (rule ring_sched_schedule)
  have new: "drop (length s) s' = concat (map (\<lambda>p. p @ [Sched_barrier]) (ring_phases a))"
    unfolding s' ring_phases_def by (simp add: ring_schedule_runs)
  have free: "\<forall>p \<in> set (ring_phases a). Sched_barrier \<notin> set p"
    by (auto simp add: ring_phases_def ring_copy_def ring_send_def ring_recv_def
        split: sendbuf_t.splits)
  from new free phases_of_runs [OF free] show ?thesis by simp
qed

text \<open>Rank 2 of 5, with a send buffer and in place.\<close>

theorem ring_barriers_witness:
  "MPIR_Iallgather_ring_sched sample_macros never_refuses (sample_args 2 5 10 4) []
     = Inr (MPI_SUCCESS, ring5_schedule)
   \<and> phases ring5_schedule =
       [[Sched_copy 4096 10 int32 65616 10 int32],
        [Sched_send 65616 10 int32 3, Sched_recv 65576 10 int32 1],
        [Sched_send 65576 10 int32 3, Sched_recv 65536 10 int32 1],
        [Sched_send 65536 10 int32 3, Sched_recv 65696 10 int32 1],
        [Sched_send 65696 10 int32 3, Sched_recv 65656 10 int32 1]]
   \<and> phases ring5_steps =
       [[Sched_send 65616 10 int32 3, Sched_recv 65576 10 int32 1],
        [Sched_send 65576 10 int32 3, Sched_recv 65536 10 int32 1],
        [Sched_send 65536 10 int32 3, Sched_recv 65696 10 int32 1],
        [Sched_send 65696 10 int32 3, Sched_recv 65656 10 int32 1]]"
proof -
  have rk: "0 \<le> rank (comm_ptr in_place_args)"
    "rank (comm_ptr in_place_args) < local_size (comm_ptr in_place_args)"
    by (simp_all add: in_place_args_def sample_args_def)
  have rk': "0 \<le> rank (comm_ptr (sample_args 2 5 10 4))"
    "rank (comm_ptr (sample_args 2 5 10 4)) < local_size (comm_ptr (sample_args 2 5 10 4))"
    by (simp_all add: sample_args_def)
  have up: "[1..(4::int)] = [1, 2, 3, 4]" by code_simp
  have p1: "ring_phases (sample_args 2 5 10 4) =
       [[Sched_copy 4096 10 int32 65616 10 int32],
        [Sched_send 65616 10 int32 3, Sched_recv 65576 10 int32 1],
        [Sched_send 65576 10 int32 3, Sched_recv 65536 10 int32 1],
        [Sched_send 65536 10 int32 3, Sched_recv 65696 10 int32 1],
        [Sched_send 65696 10 int32 3, Sched_recv 65656 10 int32 1]]"
    by (simp add: ring_phases_def ring_copy_def ring_send_def ring_recv_def block_addr_def
        MPI_Aint_of_def C_int_of_def signed_take_bit_int_eq_self
        sample_args_def int32_def up)
  have p2: "ring_phases in_place_args =
       [[Sched_send 65616 10 int32 3, Sched_recv 65576 10 int32 1],
        [Sched_send 65576 10 int32 3, Sched_recv 65536 10 int32 1],
        [Sched_send 65536 10 int32 3, Sched_recv 65696 10 int32 1],
        [Sched_send 65696 10 int32 3, Sched_recv 65656 10 int32 1]]"
    by (simp add: ring_phases_def ring_copy_def ring_send_def ring_recv_def block_addr_def
        MPI_Aint_of_def C_int_of_def signed_take_bit_int_eq_self
        in_place_args_def sample_args_def int32_def up)
  have "phases ring5_schedule = ring_phases (sample_args 2 5 10 4)"
    using ring_barriers [OF sample_pop rk' ring5_run] by simp
  moreover have "phases ring5_steps = ring_phases in_place_args"
    using ring_barriers [OF sample_pop rk ring5_in_place_run] by simp
  ultimately show ?thesis
    using ring5_run by (simp only: p1 p2 simp_thms)
qed

end
